theory Spec2Isabelle
  imports Main
begin

section \<open>Data model of \<^verbatim>\<open>quickstart/src/joinroom.js\<close>\<close>

text \<open>
  The module is an event-driven controller over objects owned by the video SDK
  (Room, Participant, TrackPublication, Track) and over the page's DOM. The SDK
  objects are mutable and compared by reference (\<^verbatim>\<open>===\<close>), so a Participant
  is named by a reference \<open>pid\<close> and its current content is read from an object
  store \<open>pid \<Rightarrow> participant\<close> that every handler receives.
\<close>

type_synonym pid = nat

datatype track_kind = Audio | Video | Data

datatype priority = Low | Standard | High

datatype error = TypeError | TwilioError string

text \<open>
  A Track: \<^verbatim>\<open>track.kind\<close> and whether the object has a \<^verbatim>\<open>setPriority\<close> method
  (\<^verbatim>\<open>track && track.setPriority\<close>, line 202). Audio and video tracks have the
  methods \<^verbatim>\<open>attach\<close> and \<^verbatim>\<open>detach\<close>; a data track has neither.
\<close>

record media_track =
  trackName :: string
  kind :: track_kind
  hasSetPriority :: bool

text \<open>A TrackPublication: \<^verbatim>\<open>publication.track\<close> is null until subscribed.\<close>

record publication =
  track :: "media_track option"

text \<open>
  A Participant: \<^verbatim>\<open>sid\<close>, \<^verbatim>\<open>identity\<close>, and the values of the Maps
  \<^verbatim>\<open>tracks\<close> and \<^verbatim>\<open>videoTracks\<close> in insertion order. The SDK keeps in
  \<^verbatim>\<open>videoTracks\<close> the publications of the participant's video tracks.
\<close>

record participant =
  sid :: string
  identity :: string
  tracks :: "publication list"
  videoTracks :: "publication list"

record room =
  localParticipant :: pid
  participants :: "pid list"
  dominantSpeaker :: "pid option"

text \<open>
  A media element of the page: its \<^verbatim>\<open>style.opacity\<close> and the tracks of its
  \<^verbatim>\<open>srcObject\<close> stream (empty when \<^verbatim>\<open>srcObject\<close> is null).
\<close>

record media_el =
  opacity :: string
  srcObject :: "media_track set"

text \<open>
  The container built by \<^verbatim>\<open>setupParticipantContainer\<close> (lines 166-169):
  a \<^verbatim>\<open>div\<close> with the participant's sid as id, one \<^verbatim>\<open>audio\<close> and one
  \<^verbatim>\<open>video\<close> child. The \<^verbatim>\<open>data-identity\<close> attribute of thumbnails is only
  written (by the network quality report) and never read, and is left out.
\<close>

record container =
  cid :: string
  classes :: "string set"
  audioMuted :: bool
  audio_el :: media_el
  video_el :: media_el

datatype promise = NotCreated | Pending | Resolved | Rejected error

text \<open>
  The state the module reads and writes: the two module-level variables, the
  children of \<^verbatim>\<open>$participants\<close>, the main surface (\<^verbatim>\<open>$activeVideo\<close> and the
  \<^verbatim>\<open>data-identity\<close> of \<^verbatim>\<open>$activeParticipant\<close>), the calls made on SDK tracks
  (\<^verbatim>\<open>setPriority\<close>, \<^verbatim>\<open>stop\<close>), and what \<^verbatim>\<open>joinRoom\<close> keeps in its
  closure and on \<^verbatim>\<open>window\<close>/\<^verbatim>\<open>document\<close>. The main video element
  belongs to the static page and is always present; the thumbnails come and go.
\<close>

record state =
  activeParticipant :: "pid option"
  isActiveParticipantPinned :: bool
  containers :: "container list"
  activeVideo :: media_el
  activeIdentity :: string
  priorityCalls :: "(media_track \<times> priority option) list"
  stoppedTracks :: "media_track list"
  localVideoTrack :: "media_track option"
  onbeforeunload :: bool
  onpagehide :: bool
  onvisibilitychange :: bool
  joinPromise :: promise

text \<open>
  A handler either returns or throws; a JavaScript exception does not undo the
  writes made before it, so both outcomes carry the state reached.
\<close>

datatype result = Ok state | Throw error state

fun stateOf :: "result \<Rightarrow> state" where
  "stateOf (Ok s) = s"
| "stateOf (Throw e s) = s"

fun thrown :: "result \<Rightarrow> error option" where
  "thrown (Ok s) = None"
| "thrown (Throw e s) = Some e"

text \<open>
  Sequencing: the next statement runs only when the one before returned;
  \<^verbatim>\<open>forEach\<close> stops at the first callback that throws.
\<close>

fun andThen :: "result \<Rightarrow> (state \<Rightarrow> result) \<Rightarrow> result" where
  "andThen (Ok s) f = f s"
| "andThen (Throw e s) f = Throw e s"

fun forEach :: "('a \<Rightarrow> state \<Rightarrow> result) \<Rightarrow> 'a list \<Rightarrow> state \<Rightarrow> result" where
  "forEach f [] s = Ok s"
| "forEach f (x # xs) s = andThen (f x s) (forEach f xs)"

section \<open>SDK and DOM primitives\<close>

text \<open>
  \<^verbatim>\<open>track.attach(el)\<close> puts the track into the element's stream in place of
  the tracks of its kind that the stream holds; \<^verbatim>\<open>track.detach(el)\<close> takes the
  track out.
\<close>

definition attach :: "media_track \<Rightarrow> media_el \<Rightarrow> media_el" where
  "attach t el = el\<lparr>srcObject := insert t (Set.filter (\<lambda>u. kind u \<noteq> kind t) (srcObject el))\<rparr>"

definition detach :: "media_track \<Rightarrow> media_el \<Rightarrow> media_el" where
  "detach t el = el\<lparr>srcObject := srcObject el - {t}\<rparr>"

definition css_opacity :: "string \<Rightarrow> media_el \<Rightarrow> media_el" where
  "css_opacity v el = el\<lparr>opacity := v\<rparr>"

definition clearSrcObject :: "media_el \<Rightarrow> media_el" where
  "clearSrcObject el = el\<lparr>srcObject := {}\<rparr>"

text \<open>
  The child of a container selected by \<^verbatim>\<open>> ${track.kind}\<close>: a container has
  an \<^verbatim>\<open>audio\<close> and a \<^verbatim>\<open>video\<close> child, and no \<^verbatim>\<open>data\<close> element.
\<close>

fun mediaOf :: "track_kind \<Rightarrow> container \<Rightarrow> media_el option" where
  "mediaOf Audio c = Some (audio_el c)"
| "mediaOf Video c = Some (video_el c)"
| "mediaOf Data c = None"

fun updMedia :: "track_kind \<Rightarrow> (media_el \<Rightarrow> media_el) \<Rightarrow> container \<Rightarrow> container" where
  "updMedia Audio f c = c\<lparr>audio_el := f (audio_el c)\<rparr>"
| "updMedia Video f c = c\<lparr>video_el := f (video_el c)\<rparr>"
| "updMedia Data f c = c"

text \<open>
  A jQuery call on \<^verbatim>\<open>$(`div#${sid}`, $participants)\<close> acts on every match;
  \<^verbatim>\<open>.get(0)\<close> is the first match, or undefined.
\<close>

definition onAll :: "string \<Rightarrow> (container \<Rightarrow> container) \<Rightarrow> container list \<Rightarrow> container list" where
  "onAll i f cs = map (\<lambda>c. if cid c = i then f c else c) cs"

fun onFirst :: "string \<Rightarrow> (container \<Rightarrow> container) \<Rightarrow> container list \<Rightarrow> container list" where
  "onFirst i f [] = []"
| "onFirst i f (c # cs) = (if cid c = i then f c # cs else c # onFirst i f cs)"

definition getFirst :: "string \<Rightarrow> container list \<Rightarrow> container option" where
  "getFirst i cs = find (\<lambda>c. cid c = i) cs"

definition addClass :: "string \<Rightarrow> container \<Rightarrow> container" where
  "addClass k c = c\<lparr>classes := insert k (classes c)\<rparr>"

definition removeClass :: "string \<Rightarrow> container \<Rightarrow> container" where
  "removeClass k c = c\<lparr>classes := classes c - {k}\<rparr>"

text \<open>
  \<^verbatim>\<open>const { track } = Array.from(p.videoTracks.values())[0] || {}\<close>
  (lines 120 and 138): the first video publication's track, if both exist.
\<close>

definition firstVideoTrack :: "participant \<Rightarrow> media_track option" where
  "firstVideoTrack p = (case videoTracks p of [] \<Rightarrow> None | pub # _ \<Rightarrow> track pub)"

section \<open>The functions of the module\<close>

text \<open>\<^verbatim>\<open>setActiveParticipant\<close>, lines 113-146.\<close>

definition setActiveParticipant :: "(pid \<Rightarrow> participant) \<Rightarrow> pid \<Rightarrow> state \<Rightarrow> state" where
  "setActiveParticipant obj p s =
    (let s1 = (case activeParticipant s of
                 None \<Rightarrow> s
               | Some a \<Rightarrow>
                   (let s' = s\<lparr>containers :=
                                onAll (sid (obj a)) (removeClass ''pinned'')
                                  (onAll (sid (obj a)) (removeClass ''active'') (containers s))\<rparr>
                    in case firstVideoTrack (obj a) of
                         None \<Rightarrow> s'
                       | Some activeTrack \<Rightarrow>
                           s'\<lparr>activeVideo := css_opacity ''0'' (detach activeTrack (activeVideo s'))\<rparr>));
         s2 = s1\<lparr>activeParticipant := Some p\<rparr>;
         s3 = s2\<lparr>containers := onAll (sid (obj p)) (addClass ''active'') (containers s2)\<rparr>;
         s4 = (if isActiveParticipantPinned s3
               then s3\<lparr>containers := onAll (sid (obj p)) (addClass ''pinned'') (containers s3)\<rparr>
               else s3);
         s5 = (case firstVideoTrack (obj p) of
                 None \<Rightarrow> s4
               | Some t \<Rightarrow> s4\<lparr>activeVideo := css_opacity '''' (attach t (activeVideo s4))\<rparr>)
     in s5\<lparr>activeIdentity := identity (obj p)\<rparr>)"

text \<open>\<^verbatim>\<open>dominantSpeaker || localParticipant\<close>, line 154.\<close>

definition currentSpeaker :: "room \<Rightarrow> pid" where
  "currentSpeaker r = (case dominantSpeaker r of Some d \<Rightarrow> d | None \<Rightarrow> localParticipant r)"

text \<open>\<^verbatim>\<open>setCurrentActiveParticipant\<close>, lines 152-155.\<close>

definition setCurrentActiveParticipant :: "(pid \<Rightarrow> participant) \<Rightarrow> room \<Rightarrow> state \<Rightarrow> state" where
  "setCurrentActiveParticipant obj r s = setActiveParticipant obj (currentSpeaker r) s"

text \<open>
  \<^verbatim>\<open>setVideoPriority\<close>, lines 199-206: one \<^verbatim>\<open>setPriority\<close> call for each
  video publication whose track exists and has the method, in Map order.
\<close>

fun priorityRequests :: "priority option \<Rightarrow> publication list \<Rightarrow> (media_track \<times> priority option) list" where
  "priorityRequests prio [] = []"
| "priorityRequests prio (pub # pubs) =
     (case track pub of
        None \<Rightarrow> priorityRequests prio pubs
      | Some t \<Rightarrow> (if hasSetPriority t then (t, prio) # priorityRequests prio pubs
                   else priorityRequests prio pubs))"

definition setVideoPriority :: "(pid \<Rightarrow> participant) \<Rightarrow> pid \<Rightarrow> priority option \<Rightarrow> state \<Rightarrow> state" where
  "setVideoPriority obj p prio s =
     s\<lparr>priorityCalls := priorityCalls s @ priorityRequests prio (videoTracks (obj p))\<rparr>"

text \<open>
  The click handler installed by \<^verbatim>\<open>setupParticipantContainer\<close>, lines 172-187,
  for the container of participant \<open>p\<close> in room \<open>r\<close>. Reading
  \<^verbatim>\<open>activeParticipant.videoTracks\<close> at line 181 throws when the variable is null.
\<close>

definition onClick :: "(pid \<Rightarrow> participant) \<Rightarrow> room \<Rightarrow> pid \<Rightarrow> state \<Rightarrow> result" where
  "onClick obj r p s =
    (if activeParticipant s = Some p \<and> isActiveParticipantPinned s then
       Ok (setCurrentActiveParticipant obj r
             ((setVideoPriority obj p None s)\<lparr>isActiveParticipantPinned := False\<rparr>))
     else
       (case (if isActiveParticipantPinned s
              then (case activeParticipant s of
                      None \<Rightarrow> Throw TypeError s
                    | Some a \<Rightarrow> Ok (setVideoPriority obj a None s))
              else Ok s) of
          Throw e s' \<Rightarrow> Throw e s'
        | Ok s1 \<Rightarrow>
            Ok (setActiveParticipant obj p
                  ((setVideoPriority obj p (Some High) s1)\<lparr>isActiveParticipantPinned := True\<rparr>))))"

text \<open>
  \<^verbatim>\<open>setupParticipantContainer\<close>, lines 162-191: the new container is appended
  to \<^verbatim>\<open>$participants\<close>; its media elements start with opacity \<^verbatim>\<open>0\<close>.
  The template pastes \<^verbatim>\<open>identity\<close> unescaped in front of the \<^verbatim>\<open>id\<close>
  attribute; identities are taken to be free of markup, so that the id is the sid.
\<close>

definition newContainer :: "(pid \<Rightarrow> participant) \<Rightarrow> room \<Rightarrow> pid \<Rightarrow> container" where
  "newContainer obj r p =
     \<lparr>cid = sid (obj p), classes = {''participant''},
      audioMuted = (p = localParticipant r),
      audio_el = \<lparr>opacity = ''0'', srcObject = {}\<rparr>,
      video_el = \<lparr>opacity = ''0'', srcObject = {}\<rparr>\<rparr>"

definition setupParticipantContainer :: "(pid \<Rightarrow> participant) \<Rightarrow> pid \<Rightarrow> room \<Rightarrow> state \<Rightarrow> state" where
  "setupParticipantContainer obj p r s = s\<lparr>containers := containers s @ [newContainer obj r p]\<rparr>"

text \<open>
  \<^verbatim>\<open>attachTrack\<close>, lines 213-225. For a data track no element matches
  \<^verbatim>\<open>div#${sid} > data\<close>, line 216 changes nothing, and line 217 throws a
  TypeError because the track has no \<^verbatim>\<open>attach\<close>. For an audio or video
  track with no matching element, \<^verbatim>\<open>$media.get(0)\<close> is undefined and
  \<^verbatim>\<open>track.attach(undefined)\<close> attaches to an element the SDK creates outside
  the document: the page does not change.
\<close>

definition attachTrack :: "(pid \<Rightarrow> participant) \<Rightarrow> media_track \<Rightarrow> pid \<Rightarrow> state \<Rightarrow> result" where
  "attachTrack obj t p s =
    (if kind t = Data then Throw TypeError s
     else
       (let i = sid (obj p);
            cs1 = onAll i (updMedia (kind t) (css_opacity '''')) (containers s);
            cs2 = onFirst i (updMedia (kind t) (attach t)) cs1;
            s1 = s\<lparr>containers := cs2\<rparr>
        in Ok (if kind t = Video \<and> activeParticipant s1 = Some p
               then s1\<lparr>activeVideo := css_opacity '''' (attach t (activeVideo s1))\<rparr>
               else s1)))"

text \<open>
  \<^verbatim>\<open>track.detach(undefined)\<close> detaches the track from every element it is
  attached to.
\<close>

definition detachEverywhere :: "media_track \<Rightarrow> state \<Rightarrow> state" where
  "detachEverywhere t s =
     s\<lparr>containers := map (\<lambda>c. c\<lparr>audio_el := detach t (audio_el c), video_el := detach t (video_el c)\<rparr>)
                         (containers s),
       activeVideo := detach t (activeVideo s)\<rparr>"

text \<open>
  \<^verbatim>\<open>detachTrack\<close>, lines 232-248. For a data track line 236 changes nothing
  and line 237 throws a TypeError because the track has no \<^verbatim>\<open>detach\<close>.
  For an audio or video track, \<^verbatim>\<open>mediaEl.srcObject = null\<close> (line 238) throws
  a TypeError when \<^verbatim>\<open>mediaEl\<close> is undefined, that is when no container of the
  participant is in the page.
\<close>

definition detachTrack :: "(pid \<Rightarrow> participant) \<Rightarrow> media_track \<Rightarrow> pid \<Rightarrow> state \<Rightarrow> result" where
  "detachTrack obj t p s =
    (if kind t = Data then Throw TypeError s
     else
       (let i = sid (obj p) in
        case getFirst i (containers s) of
          None \<Rightarrow> Throw TypeError (detachEverywhere t s)
        | Some mediaEl \<Rightarrow>
            (let cs1 = onAll i (updMedia (kind t) (css_opacity ''0'')) (containers s);
                 cs2 = onFirst i (updMedia (kind t) (\<lambda>el. clearSrcObject (detach t el))) cs1;
                 s1 = s\<lparr>containers := cs2\<rparr>
             in Ok (if kind t = Video \<and> activeParticipant s1 = Some p
                    then s1\<lparr>activeVideo := css_opacity ''0'' (clearSrcObject (detach t (activeVideo s1)))\<rparr>
                    else s1))))"

text \<open>
  \<^verbatim>\<open>trackPublished\<close>, lines 292-307: what runs at once; the
  \<^verbatim>\<open>subscribed\<close> and \<^verbatim>\<open>unsubscribed\<close> handlers are \<open>attachTrack\<close> and
  \<open>detachTrack\<close>.
\<close>

definition trackPublished :: "(pid \<Rightarrow> participant) \<Rightarrow> publication \<Rightarrow> pid \<Rightarrow> state \<Rightarrow> result" where
  "trackPublished obj pub p s =
     (case track pub of None \<Rightarrow> Ok s | Some t \<Rightarrow> attachTrack obj t p s)"

text \<open>\<^verbatim>\<open>participantConnected\<close>, lines 255-268.\<close>

definition participantConnected :: "(pid \<Rightarrow> participant) \<Rightarrow> room \<Rightarrow> pid \<Rightarrow> state \<Rightarrow> result" where
  "participantConnected obj r p s =
     forEach (\<lambda>pub. trackPublished obj pub p) (tracks (obj p)) (setupParticipantContainer obj p r s)"

text \<open>\<^verbatim>\<open>participantDisconnected\<close>, lines 275-285.\<close>

definition participantDisconnected :: "(pid \<Rightarrow> participant) \<Rightarrow> room \<Rightarrow> pid \<Rightarrow> state \<Rightarrow> state" where
  "participantDisconnected obj r p s =
    (let s1 = (if activeParticipant s = Some p \<and> isActiveParticipantPinned s
               then setCurrentActiveParticipant obj r (s\<lparr>isActiveParticipantPinned := False\<rparr>)
               else s)
     in s1\<lparr>containers := filter (\<lambda>c. cid c \<noteq> sid (obj p)) (containers s1)\<rparr>)"

text \<open>The \<^verbatim>\<open>dominantSpeakerChanged\<close> handler, lines 355-359.\<close>

definition onDominantSpeakerChanged :: "(pid \<Rightarrow> participant) \<Rightarrow> room \<Rightarrow> state \<Rightarrow> state" where
  "onDominantSpeakerChanged obj r s =
     (if \<not> isActiveParticipantPinned s then setCurrentActiveParticipant obj r s else s)"

text \<open>
  \<^verbatim>\<open>joinRoom\<close>, lines 314-418, up to the point where it returns the pending
  promise. \<open>conn\<close> is the outcome of \<^verbatim>\<open>await connect(token, connectOptions)\<close>;
  \<open>isMobile\<close> comes from \<^verbatim>\<open>./browser\<close>. A rejected \<^verbatim>\<open>connect\<close> and the
  TypeError of line 327 (\<^verbatim>\<open>[0].track\<close> on an empty array) reject the promise
  that \<^verbatim>\<open>joinRoom\<close> returns, and so does a TypeError thrown while the
  participants' publications are attached (lines 333-338). The logger, \<^verbatim>\<open>window.room\<close>, the network
  quality report and the screen-share button write nothing that \<open>state\<close>
  records. The handlers registered on the room are the functions of the next
  section.
\<close>

definition joinRoom :: "(pid \<Rightarrow> participant) \<Rightarrow> bool \<Rightarrow> error + room \<Rightarrow> state \<Rightarrow> result" where
  "joinRoom obj isMobile conn s =
    (case conn of
       Inl e \<Rightarrow> Throw e s
     | Inr r \<Rightarrow>
        (case videoTracks (obj (localParticipant r)) of
           [] \<Rightarrow> Throw TypeError s
         | pub # _ \<Rightarrow>
            andThen (participantConnected obj r (localParticipant r) (s\<lparr>localVideoTrack := track pub\<rparr>))
              (\<lambda>s2. andThen (forEach (participantConnected obj r) (participants r) s2)
                (\<lambda>s3.
                  (let s4 = setCurrentActiveParticipant obj r s3;
                       s5 = s4\<lparr>joinPromise := Pending, onbeforeunload := True\<rparr>
                   in Ok (if isMobile then s5\<lparr>onpagehide := True, onvisibilitychange := True\<rparr>
                          else s5))))))"

text \<open>
  The \<^verbatim>\<open>disconnected\<close> handler, lines 420-454. \<^verbatim>\<open>localVideoTrack.stop()\<close>
  throws when the saved track is null.
\<close>

definition onDisconnected :: "(pid \<Rightarrow> participant) \<Rightarrow> bool \<Rightarrow> room \<Rightarrow> error option \<Rightarrow> state \<Rightarrow> result" where
  "onDisconnected obj isMobile r err s =
    (let s1 = s\<lparr>onbeforeunload := False\<rparr>;
         s2 = (if isMobile then s1\<lparr>onpagehide := False, onvisibilitychange := False\<rparr> else s1)
     in case localVideoTrack s2 of
          None \<Rightarrow> Throw TypeError s2
        | Some lt \<Rightarrow>
           (let s3 = s2\<lparr>stoppedTracks := stoppedTracks s2 @ [lt]\<rparr>;
                s4 = participantDisconnected obj r (localParticipant r) s3;
                s5 = fold (participantDisconnected obj r) (participants r) s4;
                s6 = s5\<lparr>activeVideo := clearSrcObject (activeVideo s5)\<rparr>
            in Ok (s6\<lparr>joinPromise := (case err of Some e \<Rightarrow> Rejected e | None \<Rightarrow> Resolved)\<rparr>)))"

text \<open>
  The two ways into the teardown: the Leave button calls \<^verbatim>\<open>room.disconnect()\<close>
  (lines 364-367), on which the SDK emits \<^verbatim>\<open>disconnected\<close> without an error;
  an SDK-level failure emits it with the error.
\<close>

datatype leave_cause = UserLeave | SdkError error

fun causeError :: "leave_cause \<Rightarrow> error option" where
  "causeError UserLeave = None"
| "causeError (SdkError e) = Some e"

definition teardown :: "(pid \<Rightarrow> participant) \<Rightarrow> bool \<Rightarrow> room \<Rightarrow> leave_cause \<Rightarrow> state \<Rightarrow> result" where
  "teardown obj isMobile r c s = onDisconnected obj isMobile r (causeError c) s"

section \<open>Events\<close>

text \<open>
  The events the claims speak of. The SDK updates the Room before it emits:
  \<^verbatim>\<open>room.dominantSpeaker\<close> holds the new speaker, and a disconnected
  participant has left \<^verbatim>\<open>room.participants\<close>. Each event arrives with the
  SDK's object store of that moment.
\<close>

datatype event =
    DominantSpeakerChanged "pid option"
  | ParticipantDisconnected pid
  | Click pid

type_synonym world = "room \<times> state"

fun step :: "(pid \<Rightarrow> participant) \<Rightarrow> event \<Rightarrow> world \<Rightarrow> world" where
  "step obj (DominantSpeakerChanged d) (r, s) =
     (let r' = r\<lparr>dominantSpeaker := d\<rparr> in (r', onDominantSpeakerChanged obj r' s))"
| "step obj (ParticipantDisconnected p) (r, s) =
     (let r' = r\<lparr>participants := removeAll p (participants r)\<rparr>
      in (r', participantDisconnected obj r' p s))"
| "step obj (Click p) (r, s) = (r, stateOf (onClick obj r p s))"

fun run :: "((pid \<Rightarrow> participant) \<times> event) list \<Rightarrow> world \<Rightarrow> world" where
  "run [] w = w"
| "run ((obj, e) # es) w = run es (step obj e w)"

fun isSpeakerEvent :: "event \<Rightarrow> bool" where
  "isSpeakerEvent (DominantSpeakerChanged d) = True"
| "isSpeakerEvent _ = False"

text \<open>Events that are a participant leaving.\<close>

fun isDisconnectEvent :: "event \<Rightarrow> bool" where
  "isDisconnectEvent (ParticipantDisconnected p) = True"
| "isDisconnectEvent _ = False"

text \<open>
  The invariant of the presentation state: a set pin flag comes with an active
  participant.
\<close>

definition pinInvariant :: "state \<Rightarrow> bool" where
  "pinInvariant s = (isActiveParticipantPinned s \<longrightarrow> activeParticipant s \<noteq> None)"

text \<open>Publications whose tracks, where subscribed, are audio or video tracks.\<close>

definition mediaOnly :: "publication list \<Rightarrow> bool" where
  "mediaOnly pubs =
     list_all (\<lambda>q. case track q of None \<Rightarrow> True | Some t \<Rightarrow> kind t \<noteq> Data) pubs"

section \<open>A concrete room\<close>

text \<open>
  Alice (0) is the local participant with a microphone and a camera; Bob (1) is
  remote with both subscribed; Carol (2) is remote with a video publication not
  yet subscribed; Dave (3) publishes audio only; Erin (4) publishes a camera and
  a data track; \<open>chat1\<close> is a data track that Bob publishes later. Remote video
  tracks have \<^verbatim>\<open>setPriority\<close>, local ones do not.
\<close>

definition cam0 :: media_track where
  "cam0 = \<lparr>trackName = ''cam0'', kind = Video, hasSetPriority = False\<rparr>"

definition mic0 :: media_track where
  "mic0 = \<lparr>trackName = ''mic0'', kind = Audio, hasSetPriority = False\<rparr>"

definition cam1 :: media_track where
  "cam1 = \<lparr>trackName = ''cam1'', kind = Video, hasSetPriority = True\<rparr>"

definition mic1 :: media_track where
  "mic1 = \<lparr>trackName = ''mic1'', kind = Audio, hasSetPriority = False\<rparr>"

definition mic3 :: media_track where
  "mic3 = \<lparr>trackName = ''mic3'', kind = Audio, hasSetPriority = False\<rparr>"

definition chat1 :: media_track where
  "chat1 = \<lparr>trackName = ''chat1'', kind = Data, hasSetPriority = False\<rparr>"

definition cam4 :: media_track where
  "cam4 = \<lparr>trackName = ''cam4'', kind = Video, hasSetPriority = False\<rparr>"

definition chat4 :: media_track where
  "chat4 = \<lparr>trackName = ''chat4'', kind = Data, hasSetPriority = False\<rparr>"

definition exObj :: "pid \<Rightarrow> participant" where
  "exObj n =
    (if n = 0 then \<lparr>sid = ''PA0'', identity = ''alice'',
                     tracks = [\<lparr>track = Some mic0\<rparr>, \<lparr>track = Some cam0\<rparr>],
                     videoTracks = [\<lparr>track = Some cam0\<rparr>]\<rparr>
     else if n = 1 then \<lparr>sid = ''PA1'', identity = ''bob'',
                     tracks = [\<lparr>track = Some mic1\<rparr>, \<lparr>track = Some cam1\<rparr>],
                     videoTracks = [\<lparr>track = Some cam1\<rparr>]\<rparr>
     else if n = 2 then \<lparr>sid = ''PA2'', identity = ''carol'',
                     tracks = [\<lparr>track = None\<rparr>],
                     videoTracks = [\<lparr>track = None\<rparr>]\<rparr>
     else if n = 3 then \<lparr>sid = ''PA3'', identity = ''dave'',
                     tracks = [\<lparr>track = Some mic3\<rparr>],
                     videoTracks = []\<rparr>
     else \<lparr>sid = ''PA4'', identity = ''erin'',
           tracks = [\<lparr>track = Some cam4\<rparr>, \<lparr>track = Some chat4\<rparr>],
           videoTracks = [\<lparr>track = Some cam4\<rparr>]\<rparr>)"

definition exRoom :: room where
  "exRoom = \<lparr>localParticipant = 0, participants = [1, 2], dominantSpeaker = None\<rparr>"


definition audioOnlyRoom :: room where
  "audioOnlyRoom = \<lparr>localParticipant = 3, participants = [], dominantSpeaker = None\<rparr>"

definition dataRoom :: room where
  "dataRoom = \<lparr>localParticipant = 4, participants = [], dominantSpeaker = None\<rparr>"


text \<open>
  The state when the module has been loaded (lines 14 and 18) and no room has
  been joined; \<open>v\<close> is the opacity the page gives its main video element.
\<close>

definition pageLoaded :: "string \<Rightarrow> state" where
  "pageLoaded v =
     \<lparr>activeParticipant = None, isActiveParticipantPinned = False, containers = [],
      activeVideo = \<lparr>opacity = v, srcObject = {}\<rparr>, activeIdentity = '''',
      priorityCalls = [], stoppedTracks = [], localVideoTrack = None,
      onbeforeunload = False, onpagehide = False, onvisibilitychange = False,
      joinPromise = NotCreated\<rparr>"

text \<open>Alice has joined \<open>exRoom\<close>; then Bob's thumbnail is clicked.\<close>

definition exJoined :: state where
  "exJoined = stateOf (joinRoom exObj True (Inr exRoom) (pageLoaded ''''))"

definition exPinned :: state where
  "exPinned = stateOf (onClick exObj exRoom 1 exJoined)"

text \<open>
  From \<open>exJoined\<close>: Bob becomes the dominant speaker; or Bob leaves the room.
\<close>

definition exBobSpeaks :: world where
  "exBobSpeaks = step exObj (DominantSpeakerChanged (Some 1)) (exRoom, exJoined)"

definition exBobGone :: state where
  "exBobGone = snd (step exObj (ParticipantDisconnected 1) (exRoom, exJoined))"

section \<open>Auxiliary facts\<close>

lemma cid_addClass [simp]: "cid (addClass k c) = cid c"
  by (simp add: addClass_def)

lemma cid_removeClass [simp]: "cid (removeClass k c) = cid c"
  by (simp add: removeClass_def)

lemma cid_updMedia [simp]: "cid (updMedia k f c) = cid c"
  by (cases k) simp_all

lemma map_cid_onAll: "(\<And>c. cid (f c) = cid c) \<Longrightarrow> map cid (onAll i f cs) = map cid cs"
  by (induction cs) (simp_all add: onAll_def)

lemma map_cid_onFirst: "(\<And>c. cid (f c) = cid c) \<Longrightarrow> map cid (onFirst i f cs) = map cid cs"
  by (induction cs) simp_all

lemma setActiveParticipant_active [simp]:
  "activeParticipant (setActiveParticipant obj p s) = Some p"
  by (simp add: setActiveParticipant_def Let_def split: option.splits)

lemma setActiveParticipant_pinned [simp]:
  "isActiveParticipantPinned (setActiveParticipant obj p s) = isActiveParticipantPinned s"
  by (simp add: setActiveParticipant_def Let_def split: option.splits)

lemma setActiveParticipant_frame [simp]:
  "priorityCalls (setActiveParticipant obj p s) = priorityCalls s"
  "stoppedTracks (setActiveParticipant obj p s) = stoppedTracks s"
  "localVideoTrack (setActiveParticipant obj p s) = localVideoTrack s"
  "onbeforeunload (setActiveParticipant obj p s) = onbeforeunload s"
  "onpagehide (setActiveParticipant obj p s) = onpagehide s"
  "onvisibilitychange (setActiveParticipant obj p s) = onvisibilitychange s"
  "joinPromise (setActiveParticipant obj p s) = joinPromise s"
  by (simp_all add: setActiveParticipant_def Let_def split: option.splits)

lemma setActiveParticipant_cids [simp]:
  "map cid (containers (setActiveParticipant obj p s)) = map cid (containers s)"
  by (simp add: setActiveParticipant_def Let_def map_cid_onAll split: option.splits)

lemma setVideoPriority_frame [simp]:
  "activeParticipant (setVideoPriority obj p prio s) = activeParticipant s"
  "isActiveParticipantPinned (setVideoPriority obj p prio s) = isActiveParticipantPinned s"
  "containers (setVideoPriority obj p prio s) = containers s"
  "activeVideo (setVideoPriority obj p prio s) = activeVideo s"
  by (simp_all add: setVideoPriority_def)

lemma setCurrent_active [simp]:
  "activeParticipant (setCurrentActiveParticipant obj r s) = Some (currentSpeaker r)"
  by (simp add: setCurrentActiveParticipant_def)

lemma setCurrent_pinned [simp]:
  "isActiveParticipantPinned (setCurrentActiveParticipant obj r s) = isActiveParticipantPinned s"
  by (simp add: setCurrentActiveParticipant_def)

lemma setCurrent_cids [simp]:
  "map cid (containers (setCurrentActiveParticipant obj r s)) = map cid (containers s)"
  by (simp add: setCurrentActiveParticipant_def)

lemma setCurrent_frame [simp]:
  "priorityCalls (setCurrentActiveParticipant obj r s) = priorityCalls s"
  "stoppedTracks (setCurrentActiveParticipant obj r s) = stoppedTracks s"
  "localVideoTrack (setCurrentActiveParticipant obj r s) = localVideoTrack s"
  "onbeforeunload (setCurrentActiveParticipant obj r s) = onbeforeunload s"
  "onpagehide (setCurrentActiveParticipant obj r s) = onpagehide s"
  "onvisibilitychange (setCurrentActiveParticipant obj r s) = onvisibilitychange s"
  "joinPromise (setCurrentActiveParticipant obj r s) = joinPromise s"
  by (simp_all add: setCurrentActiveParticipant_def)

lemma speaker_unpinned:
  "\<not> isActiveParticipantPinned s \<Longrightarrow>
   activeParticipant (onDominantSpeakerChanged obj r s) = Some (currentSpeaker r) \<and>
   \<not> isActiveParticipantPinned (onDominantSpeakerChanged obj r s)"
  by (simp add: onDominantSpeakerChanged_def)

lemma speaker_pinned:
  "isActiveParticipantPinned s \<Longrightarrow> onDominantSpeakerChanged obj r s = s"
  by (simp add: onDominantSpeakerChanged_def)

lemma disconnected_active:
  "activeParticipant (participantDisconnected obj r p s) =
     (if activeParticipant s = Some p \<and> isActiveParticipantPinned s
      then Some (currentSpeaker r) else activeParticipant s)"
  by (simp add: participantDisconnected_def Let_def)

lemma disconnected_pinned:
  "isActiveParticipantPinned (participantDisconnected obj r p s) =
     (isActiveParticipantPinned s \<and> activeParticipant s \<noteq> Some p)"
  by (auto simp add: participantDisconnected_def Let_def)

lemma disconnected_cids:
  "map cid (containers (participantDisconnected obj r p s)) =
     filter (\<lambda>i. i \<noteq> sid (obj p)) (map cid (containers s))"
proof -
  have m: "\<And>cs. map cid (filter (\<lambda>c. cid c \<noteq> sid (obj p)) cs) =
             filter (\<lambda>i. i \<noteq> sid (obj p)) (map cid cs)"
    by (simp add: filter_map comp_def)
  show ?thesis
    by (simp add: participantDisconnected_def Let_def m)
qed

lemma run_append: "run (es @ fs) w = run fs (run es w)"
proof (induction es arbitrary: w)
  case Nil
  show ?case by simp
next
  case (Cons oe es)
  then show ?case by (cases oe) simp
qed

lemma run_speakers_unpinned:
  "\<not> isActiveParticipantPinned (snd w) \<Longrightarrow> \<forall>oe\<in>set es. isSpeakerEvent (snd oe) \<Longrightarrow>
   \<not> isActiveParticipantPinned (snd (run es w)) \<and> localParticipant (fst (run es w)) = localParticipant (fst w)"
proof (induction es arbitrary: w)
  case Nil
  then show ?case by simp
next
  case (Cons oe es)
  obtain obj e where oe: "oe = (obj, e)" by (cases oe)
  obtain r s where w: "w = (r, s)" by (cases w)
  from Cons.prems oe obtain d where e: "e = DominantSpeakerChanged d"
    by (cases e) auto
  have "\<not> isActiveParticipantPinned (snd (step obj e w))"
    using Cons.prems(1) by (simp add: e w Let_def speaker_unpinned)
  moreover have "localParticipant (fst (step obj e w)) = localParticipant (fst w)"
    by (simp add: e w Let_def)
  ultimately show ?case
    using Cons.IH [of "step obj e w"] Cons.prems(2) by (simp add: oe)
qed

lemma click_unpin:
  "activeParticipant s = Some p \<Longrightarrow> isActiveParticipantPinned s \<Longrightarrow>
   onClick obj r p s = Ok (setCurrentActiveParticipant obj r
             ((setVideoPriority obj p None s)\<lparr>isActiveParticipantPinned := False\<rparr>))"
  by (simp add: onClick_def)

lemma click_pin_unpinned:
  "\<not> isActiveParticipantPinned s \<Longrightarrow>
   onClick obj r p s = Ok (setActiveParticipant obj p
                  ((setVideoPriority obj p (Some High) s)\<lparr>isActiveParticipantPinned := True\<rparr>))"
  by (simp add: onClick_def)

lemma click_pin_other:
  "isActiveParticipantPinned s \<Longrightarrow> activeParticipant s = Some a \<Longrightarrow> a \<noteq> p \<Longrightarrow>
   onClick obj r p s = Ok (setActiveParticipant obj p
       ((setVideoPriority obj p (Some High) (setVideoPriority obj a None s))\<lparr>isActiveParticipantPinned := True\<rparr>))"
  by (simp add: onClick_def)

lemma click_cases:
  assumes "pinInvariant s"
  obtains (unpin) "activeParticipant s = Some p" "isActiveParticipantPinned s"
   | (fresh) "\<not> isActiveParticipantPinned s"
   | (other) a where "isActiveParticipantPinned s" "activeParticipant s = Some a" "a \<noteq> p"
  using assms by (auto simp add: pinInvariant_def)

lemma run_speakers_pinned:
  "isActiveParticipantPinned (snd w) \<Longrightarrow> \<forall>oe\<in>set es. isSpeakerEvent (snd oe) \<Longrightarrow>
   snd (run es w) = snd w"
proof (induction es arbitrary: w)
  case Nil
  then show ?case by simp
next
  case (Cons oe es)
  obtain obj e where oe: "oe = (obj, e)" by (cases oe)
  obtain r s where w: "w = (r, s)" by (cases w)
  from Cons.prems oe obtain d where e: "e = DominantSpeakerChanged d"
    by (cases e) auto
  have st: "snd (step obj e w) = snd w"
    using Cons.prems(1) by (simp add: e w Let_def speaker_pinned)
  then show ?case
    using Cons.IH [of "step obj e w"] Cons.prems by (simp add: oe)
qed

lemma run_disconnects_unpinned:
  "\<not> isActiveParticipantPinned (snd w) \<Longrightarrow> \<forall>oe\<in>set es. isDisconnectEvent (snd oe) \<Longrightarrow>
   \<not> isActiveParticipantPinned (snd (run es w))
   \<and> activeParticipant (snd (run es w)) = activeParticipant (snd w)
   \<and> localParticipant (fst (run es w)) = localParticipant (fst w)
   \<and> set (map cid (containers (snd (run es w)))) \<subseteq> set (map cid (containers (snd w)))"
proof (induction es arbitrary: w)
  case Nil
  then show ?case by simp
next
  case (Cons oe es)
  obtain obj e where oe: "oe = (obj, e)" by (cases oe)
  obtain r s where w: "w = (r, s)" by (cases w)
  from Cons.prems oe obtain q where e: "e = ParticipantDisconnected q"
    by (cases e) auto
  let ?w' = "step obj e w"
  have a: "\<not> isActiveParticipantPinned (snd ?w')"
    using Cons.prems(1) by (simp add: e w Let_def disconnected_pinned)
  have b: "activeParticipant (snd ?w') = activeParticipant (snd w)"
    using Cons.prems(1) by (simp add: e w Let_def disconnected_active)
  have c: "localParticipant (fst ?w') = localParticipant (fst w)"
    by (simp add: e w Let_def)
  have d: "set (map cid (containers (snd ?w'))) \<subseteq> set (map cid (containers (snd w)))"
    by (auto simp add: e w Let_def disconnected_cids simp del: set_map)
  from Cons.IH [of ?w'] a Cons.prems(2)
  have ih: "\<not> isActiveParticipantPinned (snd (run es ?w'))
     \<and> activeParticipant (snd (run es ?w')) = activeParticipant (snd ?w')
     \<and> localParticipant (fst (run es ?w')) = localParticipant (fst ?w')
     \<and> set (map cid (containers (snd (run es ?w')))) \<subseteq> set (map cid (containers (snd ?w')))"
    by simp
  show ?case
    using ih b c d by (simp add: oe del: set_map) blast
qed

lemma priorityRequests_eq:
  "priorityRequests prio pubs =
     map (\<lambda>t. (t, prio)) (filter hasSetPriority (List.map_filter track pubs))"
  by (induction pubs) (simp_all add: List.map_filter_simps split: option.splits)

lemma disconnected_frame [simp]:
  "stoppedTracks (participantDisconnected obj r p s) = stoppedTracks s"
  "localVideoTrack (participantDisconnected obj r p s) = localVideoTrack s"
  "onbeforeunload (participantDisconnected obj r p s) = onbeforeunload s"
  "onpagehide (participantDisconnected obj r p s) = onpagehide s"
  "onvisibilitychange (participantDisconnected obj r p s) = onvisibilitychange s"
  "joinPromise (participantDisconnected obj r p s) = joinPromise s"
  by (simp_all add: participantDisconnected_def Let_def)

lemma fold_disconnected_frame:
  "stoppedTracks (fold (participantDisconnected obj r) ps s) = stoppedTracks s
   \<and> onbeforeunload (fold (participantDisconnected obj r) ps s) = onbeforeunload s
   \<and> onpagehide (fold (participantDisconnected obj r) ps s) = onpagehide s
   \<and> onvisibilitychange (fold (participantDisconnected obj r) ps s) = onvisibilitychange s"
  by (induction ps arbitrary: s) simp_all

lemma fold_disconnected_cids:
  "map cid (containers (fold (participantDisconnected obj r) ps s)) =
     filter (\<lambda>i. i \<notin> sid ` obj ` set ps) (map cid (containers s))"
proof (induction ps arbitrary: s)
  case Nil
  show ?case by simp
next
  case (Cons q ps)
  have "filter (\<lambda>i. i \<notin> sid ` obj ` set ps) (filter (\<lambda>i. i \<noteq> sid (obj q)) (map cid (containers s)))
        = filter (\<lambda>i. i \<notin> sid ` obj ` set (q # ps)) (map cid (containers s))"
    by (simp add: conj_commute)
  then show ?case
    by (simp add: Cons.IH disconnected_cids del: set_simps image_insert)
qed

lemma getFirst_onAll:
  "(\<And>c. cid (f c) = cid c) \<Longrightarrow>
   getFirst i (onAll j f cs) = map_option (\<lambda>c. if cid c = j then f c else c) (getFirst i cs)"
  by (induction cs) (simp_all add: getFirst_def onAll_def)

lemma getFirst_onFirst_same:
  "(\<And>c. cid (f c) = cid c) \<Longrightarrow> getFirst i (onFirst i f cs) = map_option f (getFirst i cs)"
  by (induction cs) (simp_all add: getFirst_def)

lemma getFirst_None_iff: "getFirst i cs = None \<longleftrightarrow> i \<notin> set (map cid cs)"
  by (induction cs) (auto simp add: getFirst_def)

lemma getFirst_cid: "getFirst i cs = Some c \<Longrightarrow> cid c = i"
  by (induction cs) (auto simp add: getFirst_def split: if_splits)

lemma mediaOf_updMedia [simp]: "mediaOf k (updMedia k f c) = map_option f (mediaOf k c)"
  by (cases k) simp_all

lemma onAll_absent: "i \<notin> set (map cid cs) \<Longrightarrow> onAll i f cs = cs"
  by (induction cs) (auto simp add: onAll_def)

lemma onFirst_absent: "i \<notin> set (map cid cs) \<Longrightarrow> onFirst i f cs = cs"
  by (induction cs) auto

lemma onAll_idem:
  "(\<And>c. cid (f c) = cid c) \<Longrightarrow> (\<And>c. f (f c) = f c) \<Longrightarrow> onAll i f (onAll i f cs) = onAll i f cs"
  by (induction cs) (simp_all add: onAll_def)

lemma onFirst_onAll_idem:
  assumes "\<And>c. cid (f c) = cid c" and "\<And>c. cid (g c) = cid c"
      and "\<And>c. f (f c) = f c" and "\<And>c. g (f (g (f c))) = g (f c)"
  shows "onFirst i g (onAll i f (onFirst i g (onAll i f cs))) = onFirst i g (onAll i f cs)"
proof (induction cs)
  case Nil
  show ?case by (simp add: onAll_def)
next
  case (Cons c cs)
  have tl: "onAll i f (onAll i f cs) = onAll i f cs"
    using assms(1,3) by (rule onAll_idem)
  show ?case
  proof (cases "cid c = i")
    case True
    then show ?thesis
      using tl by (simp add: onAll_def assms)
  next
    case False
    then show ?thesis
      using Cons.IH by (simp add: onAll_def)
  qed
qed

lemma updMedia_twice [simp]: "updMedia k f (updMedia k g c) = updMedia k (\<lambda>el. f (g el)) c"
  by (cases k) simp_all

lemma attach_css_idem [simp]:
  "attach t (css_opacity v (attach t (css_opacity v el))) = attach t (css_opacity v el)"
  "css_opacity v (css_opacity v el) = css_opacity v el"
  "css_opacity v (attach t (css_opacity v (attach t el))) = css_opacity v (attach t el)"
  by (rule media_el.equality; auto simp add: attach_def css_opacity_def)+

lemma detach_css_idem [simp]:
  "clearSrcObject (detach t (css_opacity v (clearSrcObject (detach t (css_opacity v el))))) =
     clearSrcObject (detach t (css_opacity v el))"
  "css_opacity v (clearSrcObject (detach t (css_opacity v (clearSrcObject (detach t el))))) =
     css_opacity v (clearSrcObject (detach t el))"
  by (simp_all add: detach_def css_opacity_def clearSrcObject_def)

text \<open>Sequencing.\<close>

lemma andThen_Ok: "andThen res f = Ok s' \<longleftrightarrow> (\<exists>s1. res = Ok s1 \<and> f s1 = Ok s')"
  by (cases res) simp_all

lemma forEach_invariant:
  assumes "\<And>x s s'. f x s = Ok s' \<Longrightarrow> I s \<Longrightarrow> I s'"
  shows "I s \<Longrightarrow> forEach f xs s = Ok s' \<Longrightarrow> I s'"
proof (induction xs arbitrary: s)
  case Nil
  then show ?case by simp
next
  case (Cons x xs)
  from Cons.prems(2) obtain s1 where s1: "f x s = Ok s1" "forEach f xs s1 = Ok s'"
    by (auto simp add: andThen_Ok)
  from assms [OF s1(1) Cons.prems(1)] have "I s1" .
  then show ?case using s1(2) by (rule Cons.IH)
qed

lemma forEach_preserves:
  assumes "\<And>x s s'. f x s = Ok s' \<Longrightarrow> g s' = g s"
  shows "forEach f xs s = Ok s' \<Longrightarrow> g s' = g s"
proof -
  assume run: "forEach f xs s = Ok s'"
  have "g s' = g s"
  proof (rule forEach_invariant [where I = "\<lambda>u. g u = g s" and f = f and xs = xs and s = s])
    show "\<And>x u u'. f x u = Ok u' \<Longrightarrow> g u = g s \<Longrightarrow> g u' = g s"
      using assms by simp
    show "g s = g s" by simp
    show "forEach f xs s = Ok s'" by (rule run)
  qed
  then show ?thesis .
qed

lemma forEach_total:
  assumes "\<And>x s. x \<in> set xs \<Longrightarrow> \<exists>s'. f x s = Ok s'"
  shows "\<exists>s'. forEach f xs s = Ok s'"
  using assms
proof (induction xs arbitrary: s)
  case Nil
  show ?case by simp
next
  case (Cons x xs)
  from Cons.prems [of x s] obtain s1 where s1: "f x s = Ok s1"
    by auto
  have "\<exists>s'. forEach f xs s1 = Ok s'"
    by (rule Cons.IH) (simp add: Cons.prems)
  then show ?case by (simp add: s1)
qed

text \<open>\<open>attachTrack\<close> and \<open>detachTrack\<close>.\<close>

lemma attachTrack_data: "kind t = Data \<Longrightarrow> attachTrack obj t p s = Throw TypeError s"
  by (simp add: attachTrack_def)

lemma attachTrack_media:
  "kind t \<noteq> Data \<Longrightarrow>
   attachTrack obj t p s =
     Ok (s\<lparr>containers := onFirst (sid (obj p)) (updMedia (kind t) (attach t))
                       (onAll (sid (obj p)) (updMedia (kind t) (css_opacity '''')) (containers s)),
           activeVideo := (if kind t = Video \<and> activeParticipant s = Some p
                           then css_opacity '''' (attach t (activeVideo s)) else activeVideo s)\<rparr>)"
  by (simp add: attachTrack_def Let_def)

lemma attachTrack_Ok:
  assumes "attachTrack obj t p s = Ok s'"
  shows "kind t \<noteq> Data"
    and "activeParticipant s' = activeParticipant s"
    and "isActiveParticipantPinned s' = isActiveParticipantPinned s"
    and "localVideoTrack s' = localVideoTrack s"
    and "map cid (containers s') = map cid (containers s)"
    and "activeParticipant s \<noteq> Some p \<Longrightarrow> activeVideo s' = activeVideo s"
proof -
  show k: "kind t \<noteq> Data"
    using assms by (auto simp add: attachTrack_def)
  note eq = assms [unfolded attachTrack_media [OF k]]
  from eq show "activeParticipant s' = activeParticipant s"
    and "isActiveParticipantPinned s' = isActiveParticipantPinned s"
    and "localVideoTrack s' = localVideoTrack s"
    by auto
  from eq show "map cid (containers s') = map cid (containers s)"
    by (auto simp add: map_cid_onAll map_cid_onFirst)
  from eq show "activeParticipant s \<noteq> Some p \<Longrightarrow> activeVideo s' = activeVideo s"
    by auto
qed

lemma attachTrack_thumbnail:
  assumes "attachTrack obj t p s = Ok s'"
  shows "getFirst (sid (obj p)) (containers s') =
     map_option (updMedia (kind t) (\<lambda>el. attach t (css_opacity '''' el)))
       (getFirst (sid (obj p)) (containers s))"
proof -
  have k: "kind t \<noteq> Data"
    using assms by (rule attachTrack_Ok)
  have cs: "containers s' = onFirst (sid (obj p)) (updMedia (kind t) (attach t))
       (onAll (sid (obj p)) (updMedia (kind t) (css_opacity '''')) (containers s))"
    using assms [unfolded attachTrack_media [OF k]] by auto
  have "getFirst (sid (obj p)) (containers s') =
        map_option (updMedia (kind t) (attach t))
          (map_option (\<lambda>c. if cid c = sid (obj p) then updMedia (kind t) (css_opacity '''') c else c)
             (getFirst (sid (obj p)) (containers s)))"
    by (simp add: cs getFirst_onAll getFirst_onFirst_same)
  also have "\<dots> = map_option (updMedia (kind t) (\<lambda>el. attach t (css_opacity '''' el)))
       (getFirst (sid (obj p)) (containers s))"
    by (cases "getFirst (sid (obj p)) (containers s)"; cases "kind t")
       (auto dest: getFirst_cid)
  finally show ?thesis .
qed

lemma attachTrack_twice:
  assumes "attachTrack obj t p s = Ok s'"
  shows "attachTrack obj t p s' = Ok s'"
proof -
  let ?i = "sid (obj p)"
  have k: "kind t \<noteq> Data"
    using assms by (rule attachTrack_Ok)
  have s': "s' = s\<lparr>containers := onFirst ?i (updMedia (kind t) (attach t))
                       (onAll ?i (updMedia (kind t) (css_opacity '''')) (containers s)),
           activeVideo := (if kind t = Video \<and> activeParticipant s = Some p
                           then css_opacity '''' (attach t (activeVideo s)) else activeVideo s)\<rparr>"
    using assms [unfolded attachTrack_media [OF k]] by simp
  have cs: "onFirst ?i (updMedia (kind t) (attach t))
              (onAll ?i (updMedia (kind t) (css_opacity ''''))
                (onFirst ?i (updMedia (kind t) (attach t))
                  (onAll ?i (updMedia (kind t) (css_opacity '''')) (containers s)))) =
            onFirst ?i (updMedia (kind t) (attach t))
              (onAll ?i (updMedia (kind t) (css_opacity '''')) (containers s))"
    by (rule onFirst_onAll_idem) simp_all
  show ?thesis
    unfolding attachTrack_media [OF k] by (simp add: s' cs)
qed

lemma detachTrack_data: "kind t = Data \<Longrightarrow> detachTrack obj t p s = Throw TypeError s"
  by (simp add: detachTrack_def)

lemma detachTrack_present:
  "kind t \<noteq> Data \<Longrightarrow> getFirst (sid (obj p)) (containers s) = Some c \<Longrightarrow>
   detachTrack obj t p s =
     Ok (s\<lparr>containers := onFirst (sid (obj p)) (updMedia (kind t) (\<lambda>el. clearSrcObject (detach t el)))
                       (onAll (sid (obj p)) (updMedia (kind t) (css_opacity ''0'')) (containers s)),
           activeVideo := (if kind t = Video \<and> activeParticipant s = Some p
                           then css_opacity ''0'' (clearSrcObject (detach t (activeVideo s)))
                           else activeVideo s)\<rparr>)"
  by (simp add: detachTrack_def Let_def)

lemma detachTrack_absent:
  "kind t \<noteq> Data \<Longrightarrow> getFirst (sid (obj p)) (containers s) = None \<Longrightarrow>
   detachTrack obj t p s = Throw TypeError (detachEverywhere t s)"
  by (simp add: detachTrack_def)

lemma detachTrack_twice:
  assumes "kind t \<noteq> Data"
      and "getFirst (sid (obj p)) (containers s) = Some c" and "detachTrack obj t p s = Ok s'"
  shows "map cid (containers s') = map cid (containers s) \<and> detachTrack obj t p s' = Ok s'"
proof -
  let ?i = "sid (obj p)"
  let ?D = "updMedia (kind t) (\<lambda>el. clearSrcObject (detach t el))"
  let ?Z = "updMedia (kind t) (css_opacity ''0'')"
  have s': "s' = s\<lparr>containers := onFirst ?i ?D (onAll ?i ?Z (containers s)),
           activeVideo := (if kind t = Video \<and> activeParticipant s = Some p
                           then css_opacity ''0'' (clearSrcObject (detach t (activeVideo s)))
                           else activeVideo s)\<rparr>"
    using assms by (simp add: detachTrack_present)
  have cids: "map cid (containers s') = map cid (containers s)"
    by (simp add: s' map_cid_onAll map_cid_onFirst)
  have "getFirst ?i (containers s) \<noteq> None"
    using assms(2) by simp
  then have "getFirst ?i (containers s') \<noteq> None"
    unfolding getFirst_None_iff cids .
  then obtain c' where c': "getFirst ?i (containers s') = Some c'"
    by auto
  have cs: "onFirst ?i ?D (onAll ?i ?Z (onFirst ?i ?D (onAll ?i ?Z (containers s)))) =
            onFirst ?i ?D (onAll ?i ?Z (containers s))"
    by (rule onFirst_onAll_idem) simp_all
  have "detachTrack obj t p s' = Ok s'"
    unfolding detachTrack_present [of t obj p s' c', OF assms(1) c']
    by (simp add: s' cs)
  with cids show ?thesis by simp
qed

text \<open>\<open>trackPublished\<close>, \<open>participantConnected\<close> and \<open>joinRoom\<close>.\<close>

lemma trackPublished_Ok:
  assumes "trackPublished obj pub p s = Ok s'"
  shows "activeParticipant s' = activeParticipant s"
    and "isActiveParticipantPinned s' = isActiveParticipantPinned s"
    and "localVideoTrack s' = localVideoTrack s"
    and "map cid (containers s') = map cid (containers s)"
    and "activeParticipant s \<noteq> Some p \<Longrightarrow> activeVideo s' = activeVideo s"
  using assms
  by (auto simp add: trackPublished_def attachTrack_Ok split: option.splits)

lemma trackPublished_total:
  "mediaOnly [pub] \<Longrightarrow> \<exists>s'. trackPublished obj pub p s = Ok s'"
  by (auto simp add: mediaOnly_def trackPublished_def attachTrack_media split: option.splits)

lemma participantConnected_Ok:
  assumes "participantConnected obj r p s = Ok s'"
  shows "activeParticipant s' = activeParticipant s"
    and "isActiveParticipantPinned s' = isActiveParticipantPinned s"
    and "localVideoTrack s' = localVideoTrack s"
    and "map cid (containers s') = map cid (containers s) @ [sid (obj p)]"
    and "activeParticipant s \<noteq> Some p \<Longrightarrow> activeVideo s' = activeVideo s"
proof -
  let ?f = "\<lambda>pub. trackPublished obj pub p"
  let ?s0 = "setupParticipantContainer obj p r s"
  have run: "forEach ?f (tracks (obj p)) ?s0 = Ok s'"
    using assms by (simp add: participantConnected_def)
  have "activeParticipant s' = activeParticipant ?s0"
    using run by (rule forEach_preserves [rotated]) (rule trackPublished_Ok)
  then show a: "activeParticipant s' = activeParticipant s"
    by (simp add: setupParticipantContainer_def)
  have "isActiveParticipantPinned s' = isActiveParticipantPinned ?s0"
    using run by (rule forEach_preserves [rotated]) (rule trackPublished_Ok)
  then show "isActiveParticipantPinned s' = isActiveParticipantPinned s"
    by (simp add: setupParticipantContainer_def)
  have "localVideoTrack s' = localVideoTrack ?s0"
    using run by (rule forEach_preserves [rotated]) (rule trackPublished_Ok)
  then show "localVideoTrack s' = localVideoTrack s"
    by (simp add: setupParticipantContainer_def)
  have "map cid (containers s') = map cid (containers ?s0)"
    using run by (rule forEach_preserves [rotated]) (rule trackPublished_Ok)
  then show "map cid (containers s') = map cid (containers s) @ [sid (obj p)]"
    by (simp add: setupParticipantContainer_def newContainer_def)
  show "activeVideo s' = activeVideo s" if other: "activeParticipant s \<noteq> Some p"
  proof -
    have "activeParticipant s' \<noteq> Some p \<and> activeVideo s' = activeVideo ?s0"
    proof (rule forEach_invariant
        [where I = "\<lambda>u. activeParticipant u \<noteq> Some p \<and> activeVideo u = activeVideo ?s0"
           and f = ?f and xs = "tracks (obj p)" and s = ?s0])
      show "\<And>x u u'. trackPublished obj x p u = Ok u' \<Longrightarrow>
              activeParticipant u \<noteq> Some p \<and> activeVideo u = activeVideo ?s0 \<Longrightarrow>
              activeParticipant u' \<noteq> Some p \<and> activeVideo u' = activeVideo ?s0"
        by (simp add: trackPublished_Ok)
      show "activeParticipant ?s0 \<noteq> Some p \<and> activeVideo ?s0 = activeVideo ?s0"
        using other by (simp add: setupParticipantContainer_def)
      show "forEach ?f (tracks (obj p)) ?s0 = Ok s'" by (rule run)
    qed
    then show ?thesis by (simp add: setupParticipantContainer_def)
  qed
qed

lemma participantConnected_total:
  assumes "mediaOnly (tracks (obj p))"
  shows "\<exists>s'. participantConnected obj r p s = Ok s'"
  unfolding participantConnected_def
proof (rule forEach_total)
  fix pub u
  assume "pub \<in> set (tracks (obj p))"
  with assms have "mediaOnly [pub]"
    by (simp add: mediaOnly_def list_all_iff)
  then show "\<exists>s'. trackPublished obj pub p u = Ok s'"
    by (rule trackPublished_total)
qed

lemma forEach_connected_Ok:
  assumes "forEach (participantConnected obj r) ps s = Ok s'"
  shows "activeParticipant s' = activeParticipant s"
    and "isActiveParticipantPinned s' = isActiveParticipantPinned s"
    and "localVideoTrack s' = localVideoTrack s"
    and "map cid (containers s') = map cid (containers s) @ map (\<lambda>p. sid (obj p)) ps"
    and "activeParticipant s = None \<Longrightarrow> activeVideo s' = activeVideo s"
proof -
  show "activeParticipant s' = activeParticipant s"
    using assms by (rule forEach_preserves [rotated]) (rule participantConnected_Ok)
  show "isActiveParticipantPinned s' = isActiveParticipantPinned s"
    using assms by (rule forEach_preserves [rotated]) (rule participantConnected_Ok)
  show "localVideoTrack s' = localVideoTrack s"
    using assms by (rule forEach_preserves [rotated]) (rule participantConnected_Ok)
  show "map cid (containers s') = map cid (containers s) @ map (\<lambda>p. sid (obj p)) ps"
    using assms
  proof (induction ps arbitrary: s)
    case Nil
    then show ?case by simp
  next
    case (Cons q ps)
    from Cons.prems obtain s1 where s1: "participantConnected obj r q s = Ok s1"
      "forEach (participantConnected obj r) ps s1 = Ok s'"
      by (auto simp add: andThen_Ok)
    show ?case
      using Cons.IH [OF s1(2)] participantConnected_Ok(4) [OF s1(1)] by simp
  qed
  show "activeVideo s' = activeVideo s" if none: "activeParticipant s = None"
  proof -
    have "activeParticipant s' = None \<and> activeVideo s' = activeVideo s"
    proof (rule forEach_invariant
        [where I = "\<lambda>u. activeParticipant u = None \<and> activeVideo u = activeVideo s"
           and f = "participantConnected obj r" and xs = ps and s = s])
      show "\<And>x u u'. participantConnected obj r x u = Ok u' \<Longrightarrow>
              activeParticipant u = None \<and> activeVideo u = activeVideo s \<Longrightarrow>
              activeParticipant u' = None \<and> activeVideo u' = activeVideo s"
        by (simp add: participantConnected_Ok)
      show "activeParticipant s = None \<and> activeVideo s = activeVideo s"
        using none by simp
      show "forEach (participantConnected obj r) ps s = Ok s'" by (rule assms)
    qed
    then show ?thesis by simp
  qed
qed

lemma joinRoom_OkE:
  assumes "joinRoom obj isMobile (Inr r) s = Ok s'"
  obtains pub pubs s2 s3 where
    "videoTracks (obj (localParticipant r)) = pub # pubs"
    "participantConnected obj r (localParticipant r) (s\<lparr>localVideoTrack := track pub\<rparr>) = Ok s2"
    "forEach (participantConnected obj r) (participants r) s2 = Ok s3"
    "s' = (if isMobile
           then (setCurrentActiveParticipant obj r s3)
                  \<lparr>joinPromise := Pending, onbeforeunload := True\<rparr>
                  \<lparr>onpagehide := True, onvisibilitychange := True\<rparr>
           else (setCurrentActiveParticipant obj r s3)
                  \<lparr>joinPromise := Pending, onbeforeunload := True\<rparr>)"
proof (cases "videoTracks (obj (localParticipant r))")
  case Nil
  with assms show ?thesis by (simp add: joinRoom_def)
next
  case (Cons pub pubs)
  from assms obtain s2 s3 where
    "participantConnected obj r (localParticipant r) (s\<lparr>localVideoTrack := track pub\<rparr>) = Ok s2"
    "forEach (participantConnected obj r) (participants r) s2 = Ok s3"
    "s' = (if isMobile
           then (setCurrentActiveParticipant obj r s3)
                  \<lparr>joinPromise := Pending, onbeforeunload := True\<rparr>
                  \<lparr>onpagehide := True, onvisibilitychange := True\<rparr>
           else (setCurrentActiveParticipant obj r s3)
                  \<lparr>joinPromise := Pending, onbeforeunload := True\<rparr>)"
    by (auto simp add: joinRoom_def Cons andThen_Ok Let_def split: if_splits)
  with Cons show ?thesis by (rule that)
qed

lemma join_active:
  assumes "joinRoom obj isMobile (Inr r) s = Ok s'"
  shows "activeParticipant s' = Some (currentSpeaker r)"
  using assms by (rule joinRoom_OkE) simp

lemma joinRoom_ok:
  assumes "videoTracks (obj (localParticipant r)) \<noteq> []"
      and "mediaOnly (tracks (obj (localParticipant r)))"
      and "list_all (\<lambda>p. mediaOnly (tracks (obj p))) (participants r)"
  shows "joinRoom obj isMobile (Inr r) s = Ok (stateOf (joinRoom obj isMobile (Inr r) s))"
proof -
  from assms(1) obtain pub pubs where vt: "videoTracks (obj (localParticipant r)) = pub # pubs"
    by (cases "videoTracks (obj (localParticipant r))") auto
  from participantConnected_total
         [where obj = obj and p = "localParticipant r" and r = r
            and s = "s\<lparr>localVideoTrack := track pub\<rparr>", OF assms(2)]
  obtain s2 where s2:
    "participantConnected obj r (localParticipant r) (s\<lparr>localVideoTrack := track pub\<rparr>) = Ok s2"
    by blast
  have "\<exists>s3. forEach (participantConnected obj r) (participants r) s2 = Ok s3"
  proof (rule forEach_total)
    fix q u
    assume "q \<in> set (participants r)"
    with assms(3) have "mediaOnly (tracks (obj q))"
      by (simp add: list_all_iff)
    then show "\<exists>s'. participantConnected obj r q u = Ok s'"
      by (rule participantConnected_total)
  qed
  then obtain s3 where s3: "forEach (participantConnected obj r) (participants r) s2 = Ok s3"
    by blast
  show ?thesis
    by (simp add: joinRoom_def vt s2 s3 Let_def)
qed

lemma join_frame:
  assumes "joinRoom obj isMobile (Inr r) s = Ok s'"
  shows "isActiveParticipantPinned s' = isActiveParticipantPinned s"
    and "localVideoTrack s' = track (hd (videoTracks (obj (localParticipant r))))"
    and "map cid (containers s') =
           map cid (containers s) @ map (\<lambda>p. sid (obj p)) (localParticipant r # participants r)"
proof -
  from assms obtain pub pubs s2 s3 where
    vt: "videoTracks (obj (localParticipant r)) = pub # pubs"
    and s2: "participantConnected obj r (localParticipant r) (s\<lparr>localVideoTrack := track pub\<rparr>) = Ok s2"
    and s3: "forEach (participantConnected obj r) (participants r) s2 = Ok s3"
    and s': "s' = (if isMobile
           then (setCurrentActiveParticipant obj r s3)
                  \<lparr>joinPromise := Pending, onbeforeunload := True\<rparr>
                  \<lparr>onpagehide := True, onvisibilitychange := True\<rparr>
           else (setCurrentActiveParticipant obj r s3)
                  \<lparr>joinPromise := Pending, onbeforeunload := True\<rparr>)"
    by (rule joinRoom_OkE)
  note a = participantConnected_Ok [OF s2]
  note b = forEach_connected_Ok [OF s3]
  show "isActiveParticipantPinned s' = isActiveParticipantPinned s"
    by (simp add: s' a(2) b(2))
  show "localVideoTrack s' = track (hd (videoTracks (obj (localParticipant r))))"
    by (simp add: s' a(3) b(3) vt)
  show "map cid (containers s') =
           map cid (containers s) @ map (\<lambda>p. sid (obj p)) (localParticipant r # participants r)"
    by (simp add: s' a(4) b(4))
qed


lemma setActiveParticipant_first_main:
  "activeParticipant s = None \<Longrightarrow>
   activeVideo (setActiveParticipant obj p s) =
     (case firstVideoTrack (obj p) of
        None \<Rightarrow> activeVideo s
      | Some t \<Rightarrow> css_opacity '''' (attach t (activeVideo s)))"
  by (simp add: setActiveParticipant_def Let_def split: option.splits)

lemma join_main:
  assumes "joinRoom obj isMobile (Inr r) s = Ok s'"
  shows "\<exists>s3. activeVideo s' = activeVideo (setActiveParticipant obj (currentSpeaker r) s3)
             \<and> (activeParticipant s = None \<longrightarrow>
                  activeParticipant s3 = None \<and> activeVideo s3 = activeVideo s)"
proof -
  from assms obtain pub pubs s2 s3 where
    "videoTracks (obj (localParticipant r)) = pub # pubs"
    and s2: "participantConnected obj r (localParticipant r) (s\<lparr>localVideoTrack := track pub\<rparr>) = Ok s2"
    and s3: "forEach (participantConnected obj r) (participants r) s2 = Ok s3"
    and s': "s' = (if isMobile
           then (setCurrentActiveParticipant obj r s3)
                  \<lparr>joinPromise := Pending, onbeforeunload := True\<rparr>
                  \<lparr>onpagehide := True, onvisibilitychange := True\<rparr>
           else (setCurrentActiveParticipant obj r s3)
                  \<lparr>joinPromise := Pending, onbeforeunload := True\<rparr>)"
    by (rule joinRoom_OkE)
  note a = participantConnected_Ok [OF s2]
  note b = forEach_connected_Ok [OF s3]
  have v: "activeVideo s' = activeVideo (setActiveParticipant obj (currentSpeaker r) s3)"
    by (simp add: s' setCurrentActiveParticipant_def)
  have "activeParticipant s3 = None \<and> activeVideo s3 = activeVideo s"
    if none: "activeParticipant s = None"
  proof -
    have a2: "activeParticipant s2 = None" and v2: "activeVideo s2 = activeVideo s"
      using none a(1) a(5) by simp_all
    show ?thesis
      using a2 v2 b(1) b(5) by simp
  qed
  with v show ?thesis by (intro exI [where x = s3]) simp
qed

lemma join_first_main:
  assumes "joinRoom obj isMobile (Inr r) s = Ok s'" and "activeParticipant s = None"
  shows "activeVideo s' =
     (case firstVideoTrack (obj (currentSpeaker r)) of
        None \<Rightarrow> activeVideo s
      | Some t \<Rightarrow> css_opacity '''' (attach t (activeVideo s)))"
proof -
  from join_main [OF assms(1)] assms(2) obtain s3 where
    "activeVideo s' = activeVideo (setActiveParticipant obj (currentSpeaker r) s3)"
    "activeParticipant s3 = None" "activeVideo s3 = activeVideo s"
    by blast
  then show ?thesis
    by (simp add: setActiveParticipant_first_main split: option.splits)
qed

text \<open>Facts about the concrete room.\<close>

lemma exJoined_ok: "joinRoom exObj True (Inr exRoom) (pageLoaded '''') = Ok exJoined"
  unfolding exJoined_def
  by (rule joinRoom_ok)
     (simp_all add: exObj_def exRoom_def mediaOnly_def cam0_def mic0_def cam1_def mic1_def)

lemma exJoined_facts:
  "activeParticipant exJoined = Some 0"
  "\<not> isActiveParticipantPinned exJoined"
  "localVideoTrack exJoined = Some cam0"
  "map cid (containers exJoined) = [''PA0'', ''PA1'', ''PA2'']"
  "activeVideo exJoined = \<lparr>opacity = '''', srcObject = {cam0}\<rparr>"
proof -
  note j = exJoined_ok
  show "activeParticipant exJoined = Some 0"
    using join_active [OF j] by (simp add: currentSpeaker_def exRoom_def)
  show "\<not> isActiveParticipantPinned exJoined"
    using join_frame(1) [OF j] by (simp add: pageLoaded_def)
  show "localVideoTrack exJoined = Some cam0"
    using join_frame(2) [OF j] by (simp add: exObj_def exRoom_def)
  show "map cid (containers exJoined) = [''PA0'', ''PA1'', ''PA2'']"
    using join_frame(3) [OF j] by (simp add: exObj_def exRoom_def pageLoaded_def)
  have "activeParticipant (pageLoaded '''') = None"
    by (simp add: pageLoaded_def)
  from join_first_main [OF j this]
  show "activeVideo exJoined = \<lparr>opacity = '''', srcObject = {cam0}\<rparr>"
    by (simp add: currentSpeaker_def exRoom_def exObj_def firstVideoTrack_def pageLoaded_def
          css_opacity_def attach_def)
qed

lemma exPinned_facts:
  "activeParticipant exPinned = Some 1"
  "isActiveParticipantPinned exPinned"
  "priorityCalls exPinned = priorityCalls exJoined @ [(cam1, Some High)]"
  unfolding exPinned_def using exJoined_facts(2)
  by (simp_all add: click_pin_unpinned setVideoPriority_def exObj_def cam1_def)

lemma exBobSpeaks_facts:
  "fst exBobSpeaks = exRoom\<lparr>dominantSpeaker := Some 1\<rparr>"
  "activeParticipant (snd exBobSpeaks) = Some 1"
  "\<not> isActiveParticipantPinned (snd exBobSpeaks)"
  using exJoined_facts(2)
  by (simp_all add: exBobSpeaks_def Let_def speaker_unpinned currentSpeaker_def)

lemma exBobGone_cids: "map cid (containers exBobGone) = [''PA0'', ''PA2'']"
  by (simp add: exBobGone_def Let_def disconnected_cids exJoined_facts exObj_def)

text \<open>
  The invariant holds when the module is loaded and is kept by a join, by every
  event and by the teardown, so it holds in every state the module reaches.
\<close>

lemma pageLoaded_pinInvariant: "pinInvariant (pageLoaded v)"
  by (simp add: pinInvariant_def pageLoaded_def)

lemma join_pinInvariant:
  "joinRoom obj isMobile (Inr r) s = Ok s' \<Longrightarrow> pinInvariant s'"
  by (simp add: pinInvariant_def join_active)

lemma disconnected_pinInvariant:
  "pinInvariant s \<Longrightarrow> pinInvariant (participantDisconnected obj r p s)"
  by (auto simp add: pinInvariant_def disconnected_active disconnected_pinned)

lemma step_pinInvariant:
  assumes "pinInvariant s"
  shows "pinInvariant (snd (step obj e (r, s)))"
proof (cases e)
  case (DominantSpeakerChanged d)
  then show ?thesis
    using assms by (simp add: Let_def onDominantSpeakerChanged_def pinInvariant_def)
next
  case (ParticipantDisconnected p)
  then show ?thesis
    using assms by (simp add: Let_def disconnected_pinInvariant)
next
  case (Click p)
  from assms show ?thesis
  proof (cases rule: click_cases [where p = p])
    case unpin
    then show ?thesis by (simp add: Click click_unpin pinInvariant_def)
  next
    case fresh
    then show ?thesis by (simp add: Click click_pin_unpinned pinInvariant_def)
  next
    case (other a)
    then show ?thesis by (simp add: Click click_pin_other pinInvariant_def)
  qed
qed

lemma run_pinInvariant:
  "pinInvariant (snd w) \<Longrightarrow> pinInvariant (snd (run es w))"
proof (induction es arbitrary: w)
  case Nil
  then show ?case by simp
next
  case (Cons oe es)
  obtain obj e where oe: "oe = (obj, e)" by (cases oe)
  obtain r s where w: "w = (r, s)" by (cases w)
  have "pinInvariant (snd (step obj e w))"
    using Cons.prems step_pinInvariant [of s obj e r] by (simp add: w)
  then show ?case
    using Cons.IH [of "step obj e w"] by (simp add: oe)
qed

lemma fold_disconnected_pinInvariant:
  "pinInvariant s \<Longrightarrow> pinInvariant (fold (participantDisconnected obj r) ps s)"
  by (induction ps arbitrary: s) (simp_all add: disconnected_pinInvariant)

lemma teardown_pinInvariant:
  assumes "pinInvariant s"
  shows "pinInvariant (stateOf (teardown obj isMobile r cause s))"
proof -
  define s2 where "s2 = (if isMobile
     then s\<lparr>onbeforeunload := False\<rparr>\<lparr>onpagehide := False, onvisibilitychange := False\<rparr>
     else s\<lparr>onbeforeunload := False\<rparr>)"
  have i2: "pinInvariant s2"
    using assms by (simp add: s2_def pinInvariant_def)
  show ?thesis
  proof (cases "localVideoTrack s2")
    case None
    then have "teardown obj isMobile r cause s = Throw TypeError s2"
      by (simp add: teardown_def onDisconnected_def Let_def s2_def)
    then show ?thesis using i2 by simp
  next
    case (Some lt)
    define s5 where "s5 = fold (participantDisconnected obj r) (participants r)
        (participantDisconnected obj r (localParticipant r)
           (s2\<lparr>stoppedTracks := stoppedTracks s2 @ [lt]\<rparr>))"
    have "pinInvariant (s2\<lparr>stoppedTracks := stoppedTracks s2 @ [lt]\<rparr>)"
      using i2 by (simp add: pinInvariant_def)
    then have i5: "pinInvariant s5"
      by (simp add: s5_def fold_disconnected_pinInvariant disconnected_pinInvariant)
    have "stateOf (teardown obj isMobile r cause s) =
            s5\<lparr>activeVideo := clearSrcObject (activeVideo s5),
               joinPromise := (case causeError cause of Some e \<Rightarrow> Rejected e | None \<Rightarrow> Resolved)\<rparr>"
      using Some by (simp add: teardown_def onDisconnected_def Let_def s2_def [symmetric] s5_def)
    then show ?thesis
      using i5 by (simp add: pinInvariant_def)
  qed
qed

text \<open>
  Whether \<open>joinRoom\<close> returns or throws, once line 327 has passed the local
  participant's container has been appended.
\<close>

lemma forEach_invariant_stateOf:
  assumes "\<And>x u. I u \<Longrightarrow> I (stateOf (f x u))"
  shows "I s \<Longrightarrow> I (stateOf (forEach f xs s))"
proof (induction xs arbitrary: s)
  case Nil
  then show ?case by simp
next
  case (Cons x xs)
  from assms [OF Cons.prems, of x] have step: "I (stateOf (f x s))" .
  show ?case
  proof (cases "f x s")
    case (Ok s1)
    with step have "I s1" by simp
    then have "I (stateOf (forEach f xs s1))" by (rule Cons.IH)
    with Ok show ?thesis by simp
  next
    case (Throw e s1)
    with step show ?thesis by simp
  qed
qed

lemma attachTrack_stateOf_cids:
  "map cid (containers (stateOf (attachTrack obj t p s))) = map cid (containers s)"
proof (cases "kind t = Data")
  case True
  then show ?thesis by (simp add: attachTrack_data)
next
  case False
  from attachTrack_media [OF False, of obj p s]
  obtain s' where s': "attachTrack obj t p s = Ok s'"
    by blast
  from attachTrack_Ok(5) [OF s'] show ?thesis
    by (simp add: s')
qed

lemma trackPublished_stateOf_cids:
  "map cid (containers (stateOf (trackPublished obj pub p s))) = map cid (containers s)"
  by (simp add: trackPublished_def attachTrack_stateOf_cids split: option.splits)

lemma participantConnected_stateOf_cids:
  "map cid (containers (stateOf (participantConnected obj r p s))) =
     map cid (containers s) @ [sid (obj p)]"
proof -
  let ?I = "\<lambda>u. map cid (containers u) = map cid (containers s) @ [sid (obj p)]"
  have "?I (stateOf (forEach (\<lambda>pub. trackPublished obj pub p) (tracks (obj p))
                      (setupParticipantContainer obj p r s)))"
  proof (rule forEach_invariant_stateOf [where I = ?I])
    show "\<And>x u. ?I u \<Longrightarrow> ?I (stateOf (trackPublished obj x p u))"
      by (simp add: trackPublished_stateOf_cids)
    show "?I (setupParticipantContainer obj p r s)"
      by (simp add: setupParticipantContainer_def newContainer_def)
  qed
  then show ?thesis
    by (simp add: participantConnected_def)
qed

lemma forEach_connected_stateOf_length:
  "length (containers s) \<le>
     length (containers (stateOf (forEach (participantConnected obj r) ps s)))"
proof -
  let ?I = "\<lambda>u. length (containers s) \<le> length (containers u)"
  have len: "\<And>p u. length (containers (stateOf (participantConnected obj r p u))) =
                      Suc (length (containers u))"
  proof -
    fix p u
    have "length (map cid (containers (stateOf (participantConnected obj r p u)))) =
            length (map cid (containers u) @ [sid (obj p)])"
      by (simp only: participantConnected_stateOf_cids)
    then show "length (containers (stateOf (participantConnected obj r p u))) =
                 Suc (length (containers u))"
      by simp
  qed
  show ?thesis
  proof (rule forEach_invariant_stateOf [where I = ?I])
    show "\<And>x u. ?I u \<Longrightarrow> ?I (stateOf (participantConnected obj r x u))"
      by (simp add: len)
    show "?I s" by simp
  qed
qed

lemma joinRoom_sets_up_container:
  assumes "videoTracks (obj (localParticipant r)) \<noteq> []"
  shows "length (containers s) < length (containers (stateOf (joinRoom obj isMobile (Inr r) s)))"
proof -
  from assms obtain pub pubs where vt: "videoTracks (obj (localParticipant r)) = pub # pubs"
    by (cases "videoTracks (obj (localParticipant r))") auto
  let ?s0 = "s\<lparr>localVideoTrack := track pub\<rparr>"
  let ?pc = "participantConnected obj r (localParticipant r) ?s0"
  have "length (map cid (containers (stateOf ?pc))) =
          length (map cid (containers ?s0) @ [sid (obj (localParticipant r))])"
    by (simp only: participantConnected_stateOf_cids)
  then have l1: "length (containers (stateOf ?pc)) = Suc (length (containers s))"
    by simp
  show ?thesis
  proof (cases ?pc)
    case (Throw e s1)
    then have "joinRoom obj isMobile (Inr r) s = Throw e s1"
      by (simp add: joinRoom_def vt)
    with l1 Throw show ?thesis by simp
  next
    case (Ok s2)
    note l2 = forEach_connected_stateOf_length [of s2 obj r "participants r"]
    show ?thesis
    proof (cases "forEach (participantConnected obj r) (participants r) s2")
      case (Throw e s3)
      then have "joinRoom obj isMobile (Inr r) s = Throw e s3"
        using Ok by (simp add: joinRoom_def vt)
      with l1 l2 Ok Throw show ?thesis by simp
    next
      case f: (Ok s3)
      have run: "joinRoom obj isMobile (Inr r) s = Ok (stateOf (joinRoom obj isMobile (Inr r) s))"
        using Ok f by (simp add: joinRoom_def vt Let_def)
      have "length (map cid (containers (stateOf (joinRoom obj isMobile (Inr r) s)))) =
              length (map cid (containers s) @
                        map (\<lambda>p. sid (obj p)) (localParticipant r # participants r))"
        by (simp only: join_frame(3) [OF run])
      then show ?thesis by simp
    qed
  qed
qed

text \<open>
  Erin joins alone with a camera and a data track: attaching the data track
  throws, after her container has been set up and before line 351.
\<close>

lemma dataRoom_join:
  "\<exists>s1. joinRoom exObj True (Inr dataRoom) (pageLoaded '''') = Throw TypeError s1
       \<and> activeParticipant s1 = None"
proof -
  let ?s0 = "setupParticipantContainer exObj 4 dataRoom
               ((pageLoaded '''')\<lparr>localVideoTrack := Some cam4\<rparr>)"
  have k: "kind cam4 \<noteq> Data" "kind chat4 = Data"
    by (simp_all add: cam4_def chat4_def)
  from attachTrack_media [OF k(1), of exObj 4 ?s0]
  obtain s1 where s1: "attachTrack exObj cam4 4 ?s0 = Ok s1"
    by blast
  have n1: "activeParticipant s1 = None"
    using attachTrack_Ok(2) [OF s1]
    by (simp add: setupParticipantContainer_def pageLoaded_def)
  have tr: "tracks (exObj 4) = [\<lparr>track = Some cam4\<rparr>, \<lparr>track = Some chat4\<rparr>]"
    by (simp add: exObj_def)
  have vt: "videoTracks (exObj 4) = [\<lparr>track = Some cam4\<rparr>]"
    by (simp add: exObj_def)
  have pc: "participantConnected exObj dataRoom 4 ((pageLoaded '''')\<lparr>localVideoTrack := Some cam4\<rparr>)
              = Throw TypeError s1"
    unfolding participantConnected_def tr
    by (simp add: trackPublished_def s1 attachTrack_data k)
  have lp: "localParticipant dataRoom = 4"
    by (simp add: dataRoom_def)
  have "joinRoom exObj True (Inr dataRoom) (pageLoaded '''') = Throw TypeError s1"
    by (simp add: joinRoom_def lp vt pc)
  with n1 show ?thesis by blast
qed

section \<open>The claims\<close>

text \<open>
  Claim C1. While no participant is pinned, the active participant follows the
  dominant speaker: after a successful join, and after every
  dominant-speaker-changed event of a sequence processed from an unpinned state,
  \<open>activeParticipant\<close> is the room's dominant speaker when there is one and the
  local participant otherwise, and the pin flag stays clear. The sequence is
  \<open>es\<close> followed by one more event, so the statement covers each event of it.
\<close>

theorem active_follows_dominant_speaker:
  "(joinRoom obj0 isMobile (Inr r) s0 = Ok s1 \<longrightarrow>
      activeParticipant s1 =
        Some (case dominantSpeaker r of Some d \<Rightarrow> d | None \<Rightarrow> localParticipant r))
   \<and> (\<not> isActiveParticipantPinned s \<and> (\<forall>oe\<in>set es. isSpeakerEvent (snd oe)) \<longrightarrow>
        activeParticipant (snd (run (es @ [(obj, DominantSpeakerChanged d')]) (r, s))) =
          Some (case d' of Some x \<Rightarrow> x | None \<Rightarrow> localParticipant r)
        \<and> \<not> isActiveParticipantPinned (snd (run (es @ [(obj, DominantSpeakerChanged d')]) (r, s))))"
proof (intro conjI impI)
  assume "joinRoom obj0 isMobile (Inr r) s0 = Ok s1"
  then show "activeParticipant s1 =
        Some (case dominantSpeaker r of Some d \<Rightarrow> d | None \<Rightarrow> localParticipant r)"
    by (simp add: join_active currentSpeaker_def)
next
  assume a: "\<not> isActiveParticipantPinned s \<and> (\<forall>oe\<in>set es. isSpeakerEvent (snd oe))"
  obtain r2 s2 where w2: "run es (r, s) = (r2, s2)" by (cases "run es (r, s)")
  from a have u: "\<not> isActiveParticipantPinned s2" and l: "localParticipant r2 = localParticipant r"
    using run_speakers_unpinned [of "(r, s)" es] by (simp_all add: w2)
  show "activeParticipant (snd (run (es @ [(obj, DominantSpeakerChanged d')]) (r, s))) =
          Some (case d' of Some x \<Rightarrow> x | None \<Rightarrow> localParticipant r)"
    using u l by (simp add: run_append w2 Let_def speaker_unpinned currentSpeaker_def
                    split: option.splits)
  show "\<not> isActiveParticipantPinned (snd (run (es @ [(obj, DominantSpeakerChanged d')]) (r, s)))"
    using u by (simp add: run_append w2 Let_def speaker_unpinned)
qed

text \<open>
  Alice joins \<open>exRoom\<close> and becomes active; Carol, then Bob become the dominant
  speaker, and Bob is active.
\<close>

theorem active_follows_dominant_speaker_witness:
  "joinRoom exObj True (Inr exRoom) (pageLoaded '''') = Ok exJoined
   \<and> activeParticipant exJoined = Some 0
   \<and> \<not> isActiveParticipantPinned exJoined
   \<and> list_all (\<lambda>oe. isSpeakerEvent (snd oe)) [(exObj, DominantSpeakerChanged (Some 2))]
   \<and> activeParticipant
        (snd (run ([(exObj, DominantSpeakerChanged (Some 2))] @ [(exObj, DominantSpeakerChanged (Some 1))])
                (exRoom, exJoined))) = Some 1"
proof -
  have h1: "joinRoom exObj True (Inr exRoom) (pageLoaded '''') = Ok exJoined"
    by (rule exJoined_ok)
  have h2: "\<not> isActiveParticipantPinned exJoined"
    by (rule exJoined_facts)
  have h3: "\<forall>oe\<in>set [(exObj, DominantSpeakerChanged (Some 2))]. isSpeakerEvent (snd oe)"
    by simp
  note t = active_follows_dominant_speaker
    [of exObj True exRoom "pageLoaded ''''" exJoined exJoined
        "[(exObj, DominantSpeakerChanged (Some 2))]" exObj "Some 1"]
  from t h1 have c1: "activeParticipant exJoined =
      Some (case dominantSpeaker exRoom of Some d \<Rightarrow> d | None \<Rightarrow> localParticipant exRoom)"
    by blast
  from t h2 h3 have c2: "activeParticipant
        (snd (run ([(exObj, DominantSpeakerChanged (Some 2))] @ [(exObj, DominantSpeakerChanged (Some 1))])
                (exRoom, exJoined))) = Some (case Some 1 of Some x \<Rightarrow> x | None \<Rightarrow> localParticipant exRoom)"
    by blast
  have c1': "activeParticipant exJoined = Some 0"
    using c1 by (simp add: exRoom_def)
  have c2': "activeParticipant
        (snd (run ([(exObj, DominantSpeakerChanged (Some 2))] @ [(exObj, DominantSpeakerChanged (Some 1))])
                (exRoom, exJoined))) = Some 1"
    using c2 by simp
  from h1 h2 h3 c1' c2' show ?thesis by (simp add: list_all_iff)
qed

text \<open>
  Claim C2. Each handler (thumbnail click, participant disconnect, dominant
  speaker change) preserves \<open>pinInvariant\<close>: a set pin flag comes with a
  non-null active participant, and that participant is the pinned one: after a
  click that leaves the flag set the clicked participant is active, and after
  any other event a set flag was set before and the active participant is the
  same. The flag goes from set to clear exactly when the pinned participant's
  thumbnail is clicked again or the pinned participant disconnects. Under the
  invariant the click handler does not throw.
\<close>

theorem pin_invariant_preserved:
  assumes "pinInvariant s"
  shows "pinInvariant (snd (step obj e (r, s)))
    \<and> (case e of
         Click p \<Rightarrow> (\<exists>s'. onClick obj r p s = Ok s') \<and>
            (isActiveParticipantPinned (snd (step obj e (r, s))) \<longrightarrow>
               activeParticipant (snd (step obj e (r, s))) = Some p)
       | _ \<Rightarrow> isActiveParticipantPinned (snd (step obj e (r, s))) \<longrightarrow>
               isActiveParticipantPinned s \<and>
               activeParticipant (snd (step obj e (r, s))) = activeParticipant s)
    \<and> ((isActiveParticipantPinned s \<and> \<not> isActiveParticipantPinned (snd (step obj e (r, s)))) =
        (\<exists>p. isActiveParticipantPinned s \<and> activeParticipant s = Some p \<and>
             (e = Click p \<or> e = ParticipantDisconnected p)))"
proof (cases e)
  case (DominantSpeakerChanged d)
  show ?thesis
  proof (cases "isActiveParticipantPinned s")
    case True
    then show ?thesis using assms
      by (simp add: DominantSpeakerChanged Let_def speaker_pinned)
  next
    case False
    then show ?thesis
      by (simp add: DominantSpeakerChanged Let_def speaker_unpinned pinInvariant_def)
  qed
next
  case (ParticipantDisconnected p)
  show ?thesis using assms
    by (auto simp add: ParticipantDisconnected Let_def disconnected_active disconnected_pinned
          pinInvariant_def)
next
  case (Click p)
  from assms show ?thesis
  proof (cases rule: click_cases [where p = p])
    case unpin
    then show ?thesis
      by (simp add: Click click_unpin pinInvariant_def)
  next
    case fresh
    then show ?thesis
      by (simp add: Click click_pin_unpinned pinInvariant_def)
  next
    case (other a)
    then show ?thesis
      by (simp add: Click click_pin_other pinInvariant_def)
  qed
qed

text \<open>
  Bob is pinned and then disconnects: the invariant holds before and after, and
  the flag is cleared.
\<close>

theorem pin_invariant_preserved_witness:
  "pinInvariant exPinned \<and> isActiveParticipantPinned exPinned
   \<and> pinInvariant (snd (step exObj (ParticipantDisconnected 1) (exRoom, exPinned)))
   \<and> \<not> isActiveParticipantPinned (snd (step exObj (ParticipantDisconnected 1) (exRoom, exPinned)))"
proof -
  have h: "pinInvariant exPinned"
    by (simp add: pinInvariant_def exPinned_facts)
  note t = pin_invariant_preserved [OF h, where obj = exObj and e = "ParticipantDisconnected 1"
             and r = exRoom]
  from t have c1: "pinInvariant (snd (step exObj (ParticipantDisconnected 1) (exRoom, exPinned)))"
    by blast
  from t have "(isActiveParticipantPinned exPinned \<and>
       \<not> isActiveParticipantPinned (snd (step exObj (ParticipantDisconnected 1) (exRoom, exPinned)))) =
      (\<exists>p. isActiveParticipantPinned exPinned \<and> activeParticipant exPinned = Some p \<and>
           (ParticipantDisconnected 1 = Click p \<or> ParticipantDisconnected 1 = ParticipantDisconnected p))"
    by blast
  then have c2: "\<not> isActiveParticipantPinned
                   (snd (step exObj (ParticipantDisconnected 1) (exRoom, exPinned)))"
    using exPinned_facts(1,2) by simp
  from h c1 c2 exPinned_facts(2) show ?thesis by blast
qed

text \<open>
  Claim C3. After a click has pinned participant \<open>p\<close>, any number of
  dominant-speaker-changed events leave \<open>p\<close> active and pinned; a click on
  \<open>p\<close> or the disconnect of \<open>p\<close> then clears the pin.
\<close>

theorem pinned_survives_speaker_changes:
  assumes "pinInvariant s"
      and "\<not> (activeParticipant s = Some p \<and> isActiveParticipantPinned s)"
      and "\<forall>oe\<in>set es. isSpeakerEvent (snd oe)"
  shows "activeParticipant (snd (run es (step obj (Click p) (r, s)))) = Some p
       \<and> isActiveParticipantPinned (snd (run es (step obj (Click p) (r, s))))
       \<and> \<not> isActiveParticipantPinned
             (snd (step obj1 (Click p) (run es (step obj (Click p) (r, s)))))
       \<and> \<not> isActiveParticipantPinned
             (snd (step obj2 (ParticipantDisconnected p) (run es (step obj (Click p) (r, s)))))"
proof -
  define w1 where "w1 = step obj (Click p) (r, s)"
  have "isActiveParticipantPinned (snd (step obj (Click p) (r, s)))
        \<and> activeParticipant (snd (step obj (Click p) (r, s))) = Some p"
    using assms(1)
  proof (cases rule: click_cases [where p = p])
    case unpin
    with assms(2) show ?thesis by simp
  next
    case fresh
    then show ?thesis by (simp add: click_pin_unpinned)
  next
    case (other a)
    then show ?thesis by (simp add: click_pin_other)
  qed
  then have p1: "isActiveParticipantPinned (snd w1) \<and> activeParticipant (snd w1) = Some p"
    by (simp add: w1_def)
  have same: "snd (run es w1) = snd w1"
    using p1 assms(3) by (simp add: run_speakers_pinned)
  obtain r2 s2 where w2: "run es w1 = (r2, s2)" by (cases "run es w1")
  from same p1 w2 have p2: "isActiveParticipantPinned s2" "activeParticipant s2 = Some p"
    by simp_all
  show ?thesis
    unfolding w1_def [symmetric] w2
    using p2 by (simp add: click_unpin Let_def disconnected_pinned)
qed

text \<open>
  Bob is pinned after the join; the dominant speaker changes to Carol and then
  to nobody, and Bob is still active and pinned.
\<close>

theorem pinned_survives_speaker_changes_witness:
  "pinInvariant exJoined
   \<and> \<not> (activeParticipant exJoined = Some 1 \<and> isActiveParticipantPinned exJoined)
   \<and> list_all (\<lambda>oe. isSpeakerEvent (snd oe))
         [(exObj, DominantSpeakerChanged (Some 2)), (exObj, DominantSpeakerChanged None)]
   \<and> activeParticipant
       (snd (run [(exObj, DominantSpeakerChanged (Some 2)), (exObj, DominantSpeakerChanged None)]
               (step exObj (Click 1) (exRoom, exJoined)))) = Some 1
   \<and> isActiveParticipantPinned
       (snd (run [(exObj, DominantSpeakerChanged (Some 2)), (exObj, DominantSpeakerChanged None)]
               (step exObj (Click 1) (exRoom, exJoined))))"
proof -
  have h1: "pinInvariant exJoined"
    by (simp add: pinInvariant_def exJoined_facts)
  have h2: "\<not> (activeParticipant exJoined = Some 1 \<and> isActiveParticipantPinned exJoined)"
    by (simp add: exJoined_facts)
  have h3: "\<forall>oe\<in>set [(exObj, DominantSpeakerChanged (Some 2)), (exObj, DominantSpeakerChanged None)].
         isSpeakerEvent (snd oe)"
    by simp
  note t = pinned_survives_speaker_changes [OF h1 h2 h3, where obj = exObj and r = exRoom]
  have h3': "list_all (\<lambda>oe. isSpeakerEvent (snd oe))
         [(exObj, DominantSpeakerChanged (Some 2)), (exObj, DominantSpeakerChanged None)]"
    by simp
  from h1 h2 h3' t show ?thesis by blast
qed

text \<open>
  Claim C4, amended. For an audio or video track, \<open>attachTrack\<close> returns
  without error, adds and removes no container, and attaching again changes
  nothing. For an audio or video track and a participant with a container in
  the page, \<open>detachTrack\<close> returns without error, keeps the containers, and
  detaching again changes nothing, whether or not the track was attached. When
  no container of the participant is in the page, \<open>detachTrack\<close> throws a
  TypeError (line 238 dereferences the missing element). For a data track, which
  has neither method, \<open>attachTrack\<close> and \<open>detachTrack\<close> throw a TypeError
  (lines 217 and 237) and leave the state as it was.
\<close>

theorem attach_detach_idempotent_media_tracks:
  "(kind t \<noteq> Data \<longrightarrow>
      (\<exists>s'. attachTrack obj t p s = Ok s'
          \<and> map cid (containers s') = map cid (containers s)
          \<and> attachTrack obj t p s' = Ok s'))
   \<and> (kind t \<noteq> Data \<and> sid (obj p) \<in> set (map cid (containers s)) \<longrightarrow>
        (\<exists>s'. detachTrack obj t p s = Ok s'
            \<and> map cid (containers s') = map cid (containers s)
            \<and> detachTrack obj t p s' = Ok s'))
   \<and> (kind t \<noteq> Data \<and> sid (obj p) \<notin> set (map cid (containers s)) \<longrightarrow>
        detachTrack obj t p s = Throw TypeError (detachEverywhere t s))
   \<and> (kind t = Data \<longrightarrow>
        attachTrack obj t p s = Throw TypeError s \<and> detachTrack obj t p s = Throw TypeError s)"
proof (intro conjI impI)
  assume k: "kind t \<noteq> Data"
  from attachTrack_media [OF k, of obj p s]
  obtain s' where s': "attachTrack obj t p s = Ok s'"
    by blast
  from s' attachTrack_Ok(5) [OF s'] attachTrack_twice [OF s']
  show "\<exists>s'. attachTrack obj t p s = Ok s'
          \<and> map cid (containers s') = map cid (containers s)
          \<and> attachTrack obj t p s' = Ok s'"
    by blast
next
  assume a: "kind t \<noteq> Data \<and> sid (obj p) \<in> set (map cid (containers s))"
  then have k: "kind t \<noteq> Data" by simp
  from a obtain c where c: "getFirst (sid (obj p)) (containers s) = Some c"
    using getFirst_None_iff [of "sid (obj p)" "containers s"] by auto
  from detachTrack_present [where obj = obj and p = p and s = s and t = t, OF k c]
  obtain s' where s': "detachTrack obj t p s = Ok s'"
    by blast
  from detachTrack_twice [where obj = obj and p = p and s = s and t = t, OF k c s'] s'
  show "\<exists>s'. detachTrack obj t p s = Ok s'
            \<and> map cid (containers s') = map cid (containers s)
            \<and> detachTrack obj t p s' = Ok s'"
    by blast
next
  assume a: "kind t \<noteq> Data \<and> sid (obj p) \<notin> set (map cid (containers s))"
  then have "getFirst (sid (obj p)) (containers s) = None"
    by (simp add: getFirst_None_iff del: set_map)
  with a show "detachTrack obj t p s = Throw TypeError (detachEverywhere t s)"
    by (simp add: detachTrack_absent)
next
  assume "kind t = Data"
  then show "attachTrack obj t p s = Throw TypeError s"
    by (rule attachTrack_data)
next
  assume "kind t = Data"
  then show "detachTrack obj t p s = Throw TypeError s"
    by (rule detachTrack_data)
qed

text \<open>
  Bob's camera in the joined room, where his container is present, and after he
  has left, where it is not; and a data track of his.
\<close>

theorem attach_detach_idempotent_media_tracks_witness:
  "kind cam1 \<noteq> Data
   \<and> sid (exObj 1) \<in> set (map cid (containers exJoined))
   \<and> (\<exists>s'. attachTrack exObj cam1 1 exJoined = Ok s'
          \<and> map cid (containers s') = map cid (containers exJoined)
          \<and> attachTrack exObj cam1 1 s' = Ok s')
   \<and> (\<exists>s'. detachTrack exObj cam1 1 exJoined = Ok s'
          \<and> map cid (containers s') = map cid (containers exJoined)
          \<and> detachTrack exObj cam1 1 s' = Ok s')
   \<and> sid (exObj 1) \<notin> set (map cid (containers exBobGone))
   \<and> detachTrack exObj cam1 1 exBobGone = Throw TypeError (detachEverywhere cam1 exBobGone)
   \<and> kind chat1 = Data
   \<and> attachTrack exObj chat1 1 exJoined = Throw TypeError exJoined
   \<and> detachTrack exObj chat1 1 exJoined = Throw TypeError exJoined"
proof -
  have k1: "kind cam1 \<noteq> Data" and k2: "kind chat1 = Data"
    by (simp_all add: cam1_def chat1_def)
  have h1: "sid (exObj 1) \<in> set (map cid (containers exJoined))"
    unfolding exJoined_facts(4) by (simp add: exObj_def)
  have h2: "sid (exObj 1) \<notin> set (map cid (containers exBobGone))"
    unfolding exBobGone_cids by (simp add: exObj_def)
  note t1 = attach_detach_idempotent_media_tracks [of cam1 exObj 1 exJoined]
  note t2 = attach_detach_idempotent_media_tracks [of cam1 exObj 1 exBobGone]
  note t3 = attach_detach_idempotent_media_tracks [of chat1 exObj 1 exJoined]
  from t1 k1 have c1: "\<exists>s'. attachTrack exObj cam1 1 exJoined = Ok s'
          \<and> map cid (containers s') = map cid (containers exJoined)
          \<and> attachTrack exObj cam1 1 s' = Ok s'"
    by blast
  from t1 k1 h1 have c2: "\<exists>s'. detachTrack exObj cam1 1 exJoined = Ok s'
          \<and> map cid (containers s') = map cid (containers exJoined)
          \<and> detachTrack exObj cam1 1 s' = Ok s'"
    by blast
  from t2 k1 h2 have c3: "detachTrack exObj cam1 1 exBobGone =
                            Throw TypeError (detachEverywhere cam1 exBobGone)"
    by blast
  from t3 k2 have c4: "attachTrack exObj chat1 1 exJoined = Throw TypeError exJoined"
    and c5: "detachTrack exObj chat1 1 exJoined = Throw TypeError exJoined"
    by blast+
  from k1 k2 h1 h2 c1 c2 c3 c4 c5 show ?thesis by blast
qed

text \<open>
  The claim as stated fails. Bob has disconnected, so his container is gone, and
  detaching his camera track throws. With his container in the page, detaching
  a data track of his, which was never attached, throws, and so does attaching
  it.
\<close>

theorem attach_detach_error_counterexample:
  "detachTrack exObj cam1 1 exBobGone = Throw TypeError (detachEverywhere cam1 exBobGone)
   \<and> sid (exObj 1) \<in> set (map cid (containers exJoined))
   \<and> detachTrack exObj chat1 1 exJoined = Throw TypeError exJoined
   \<and> attachTrack exObj chat1 1 exJoined = Throw TypeError exJoined"
proof -
  have "getFirst (sid (exObj 1)) (containers exBobGone) = None"
    unfolding getFirst_None_iff exBobGone_cids by (simp add: exObj_def)
  then have a: "detachTrack exObj cam1 1 exBobGone =
                  Throw TypeError (detachEverywhere cam1 exBobGone)"
    by (simp add: detachTrack_absent cam1_def)
  have b: "sid (exObj 1) \<in> set (map cid (containers exJoined))"
    unfolding exJoined_facts(4) by (simp add: exObj_def)
  have c: "detachTrack exObj chat1 1 exJoined = Throw TypeError exJoined"
    by (simp add: detachTrack_data chat1_def)
  have d: "attachTrack exObj chat1 1 exJoined = Throw TypeError exJoined"
    by (simp add: attachTrack_data chat1_def)
  from a b c d show ?thesis by blast
qed




text \<open>
  Claim C6. The click handler toggles the pin. Under \<open>pinInvariant\<close> it
  returns. When the clicked participant is the pinned one, it clears the flag,
  calls \<^verbatim>\<open>setPriority(null)\<close> (the reset to the default priority) on each
  subscribed video track of that participant that has the method, and makes the
  dominant speaker, or else the local participant, active. Otherwise it first
  resets the priority of the previously pinned participant's video tracks, if
  the flag was set, then requests \<^verbatim>\<open>high\<close> on the clicked participant's
  video tracks, makes it active and sets the flag. \<open>priorityCalls\<close> records the
  calls in order.
\<close>

theorem click_toggles_pin:
  assumes "pinInvariant s"
  shows "\<exists>s'. onClick obj r p s = Ok s' \<and>
    (if activeParticipant s = Some p \<and> isActiveParticipantPinned s
     then \<not> isActiveParticipantPinned s'
        \<and> priorityCalls s' = priorityCalls s @
             map (\<lambda>t. (t, None)) (filter hasSetPriority (List.map_filter track (videoTracks (obj p))))
        \<and> activeParticipant s' =
             Some (case dominantSpeaker r of Some d \<Rightarrow> d | None \<Rightarrow> localParticipant r)
     else isActiveParticipantPinned s'
        \<and> activeParticipant s' = Some p
        \<and> priorityCalls s' = priorityCalls s @
             (case activeParticipant s of
                Some a \<Rightarrow>
                  if isActiveParticipantPinned s
                  then map (\<lambda>t. (t, None))
                         (filter hasSetPriority (List.map_filter track (videoTracks (obj a))))
                  else []
              | None \<Rightarrow> []) @
             map (\<lambda>t. (t, Some High))
               (filter hasSetPriority (List.map_filter track (videoTracks (obj p)))))"
  using assms
proof (cases rule: click_cases [where p = p])
  case unpin
  then show ?thesis
    by (simp add: click_unpin setVideoPriority_def priorityRequests_eq currentSpeaker_def)
next
  case fresh
  then show ?thesis
    by (simp add: click_pin_unpinned setVideoPriority_def priorityRequests_eq split: option.splits)
next
  case (other a)
  then show ?thesis
    by (simp add: click_pin_other setVideoPriority_def priorityRequests_eq)
qed

text \<open>
  Bob is pinned and his thumbnail is clicked again: the pin is cleared, his
  camera's priority is reset, and Alice is active.
\<close>

theorem click_toggles_pin_witness:
  "pinInvariant exPinned
   \<and> (\<exists>s'. onClick exObj exRoom 1 exPinned = Ok s'
        \<and> \<not> isActiveParticipantPinned s'
        \<and> priorityCalls s' = priorityCalls exPinned @ [(cam1, None)]
        \<and> activeParticipant s' = Some 0)"
proof -
  have h: "pinInvariant exPinned"
    by (simp add: pinInvariant_def exPinned_facts)
  have v: "map (\<lambda>t. (t, None :: priority option))
             (filter hasSetPriority (List.map_filter track (videoTracks (exObj 1)))) = [(cam1, None)]"
    by (simp add: exObj_def cam1_def List.map_filter_simps)
  have d: "(case dominantSpeaker exRoom of Some d \<Rightarrow> d | None \<Rightarrow> localParticipant exRoom) = 0"
    by (simp add: exRoom_def)
  from click_toggles_pin [OF h, of exObj exRoom 1]
  have "\<exists>s'. onClick exObj exRoom 1 exPinned = Ok s'
        \<and> \<not> isActiveParticipantPinned s'
        \<and> priorityCalls s' = priorityCalls exPinned @ [(cam1, None)]
        \<and> activeParticipant s' = Some 0"
    unfolding v d using exPinned_facts(1,2) by simp
  with h show ?thesis by blast
qed

text \<open>
  Claim C7. A user leave and an SDK-level disconnect error run the same
  teardown: from the same state both return, and their final states differ only
  in the promise, resolved for the leave and rejected with the error otherwise.
  The teardown stops the saved local video track, removes the containers of the
  local and of every remote participant of the room (all containers, when each
  belongs to one of them), clears the main surface's \<^verbatim>\<open>srcObject\<close>, and
  removes \<^verbatim>\<open>onbeforeunload\<close> and, on mobile, \<^verbatim>\<open>onpagehide\<close> and
  \<^verbatim>\<open>onvisibilitychange\<close>. The saved track is non-null whenever the
  handler is installed for a local participant whose publications have tracks.
\<close>

theorem teardown_converges:
  assumes "localVideoTrack s = Some lt"
  shows "\<exists>s'. teardown obj isMobile r UserLeave s = Ok s'
       \<and> teardown obj isMobile r (SdkError e) s = Ok (s'\<lparr>joinPromise := Rejected e\<rparr>)
       \<and> joinPromise s' = Resolved
       \<and> lt \<in> set (stoppedTracks s')
       \<and> (\<forall>p\<in>insert (localParticipant r) (set (participants r)).
             sid (obj p) \<notin> set (map cid (containers s')))
       \<and> ((\<forall>c\<in>set (containers s).
               cid c \<in> sid ` obj ` insert (localParticipant r) (set (participants r)))
            \<longrightarrow> containers s' = [])
       \<and> srcObject (activeVideo s') = {}
       \<and> \<not> onbeforeunload s'
       \<and> (isMobile \<longrightarrow> \<not> onpagehide s' \<and> \<not> onvisibilitychange s')"
proof -
  define s2 where "s2 = (if isMobile
     then s\<lparr>onbeforeunload := False\<rparr>\<lparr>onpagehide := False, onvisibilitychange := False\<rparr>
     else s\<lparr>onbeforeunload := False\<rparr>)"
  define s3 where "s3 = s2\<lparr>stoppedTracks := stoppedTracks s2 @ [lt]\<rparr>"
  define s5 where "s5 = fold (participantDisconnected obj r) (participants r)
                          (participantDisconnected obj r (localParticipant r) s3)"
  define s6 where "s6 = s5\<lparr>activeVideo := clearSrcObject (activeVideo s5)\<rparr>"
  define s' where "s' = s6\<lparr>joinPromise := Resolved\<rparr>"
  have lv: "localVideoTrack s2 = Some lt"
    using assms(1) by (simp add: s2_def)
  have any: "\<And>err. onDisconnected obj isMobile r err s =
       Ok (s6\<lparr>joinPromise := (case err of Some e \<Rightarrow> Rejected e | None \<Rightarrow> Resolved)\<rparr>)"
    using lv by (simp add: onDisconnected_def Let_def s2_def [symmetric]
                   s3_def [symmetric] s5_def [symmetric] s6_def)
  have leave: "teardown obj isMobile r UserLeave s = Ok s'"
    by (simp add: teardown_def any s'_def)
  have fail: "teardown obj isMobile r (SdkError e) s = Ok (s'\<lparr>joinPromise := Rejected e\<rparr>)"
    by (simp add: teardown_def any s'_def)
  have cs3: "containers s3 = containers s"
    by (simp add: s3_def s2_def)
  have cids: "map cid (containers s5) =
          filter (\<lambda>i. i \<notin> sid ` obj ` set (participants r))
            (filter (\<lambda>i. i \<noteq> sid (obj (localParticipant r))) (map cid (containers s)))"
    by (simp add: s5_def fold_disconnected_cids disconnected_cids cs3)
  have gone: "\<forall>p\<in>insert (localParticipant r) (set (participants r)).
                sid (obj p) \<notin> set (map cid (containers s5))"
    unfolding cids by auto
  have empty: "(\<forall>c\<in>set (containers s).
               cid c \<in> sid ` obj ` insert (localParticipant r) (set (participants r)))
            \<longrightarrow> containers s5 = []"
  proof
    assume "\<forall>c\<in>set (containers s).
               cid c \<in> sid ` obj ` insert (localParticipant r) (set (participants r))"
    then have "map cid (containers s5) = []"
      unfolding cids by (auto simp add: filter_empty_conv)
    then show "containers s5 = []" by simp
  qed
  have st: "stoppedTracks s5 = stoppedTracks s2 @ [lt]"
    by (simp add: s5_def fold_disconnected_frame s3_def)
  have l1: "\<not> onbeforeunload s5"
    by (simp add: s5_def fold_disconnected_frame s3_def s2_def)
  have l2: "isMobile \<longrightarrow> \<not> onpagehide s5 \<and> \<not> onvisibilitychange s5"
    by (simp add: s5_def fold_disconnected_frame s3_def s2_def)
  have fields: "containers s' = containers s5" "stoppedTracks s' = stoppedTracks s5"
    "onbeforeunload s' = onbeforeunload s5" "onpagehide s' = onpagehide s5"
    "onvisibilitychange s' = onvisibilitychange s5" "joinPromise s' = Resolved"
    "srcObject (activeVideo s') = {}"
    by (simp_all add: s'_def s6_def clearSrcObject_def)
  show ?thesis
    using leave fail gone empty st l1 l2 by (simp add: fields del: set_map)
qed

text \<open>
  Teardown of the joined room on mobile.
\<close>

theorem teardown_converges_witness:
  "localVideoTrack exJoined = Some cam0
   \<and> set (map cid (containers exJoined)) \<subseteq>
         sid ` exObj ` insert (localParticipant exRoom) (set (participants exRoom))
   \<and> (\<exists>s'. teardown exObj True exRoom UserLeave exJoined = Ok s'
        \<and> teardown exObj True exRoom (SdkError (TwilioError ''signaling'')) exJoined =
            Ok (s'\<lparr>joinPromise := Rejected (TwilioError ''signaling'')\<rparr>)
        \<and> joinPromise s' = Resolved
        \<and> cam0 \<in> set (stoppedTracks s')
        \<and> containers s' = []
        \<and> srcObject (activeVideo s') = {}
        \<and> \<not> onbeforeunload s' \<and> \<not> onpagehide s' \<and> \<not> onvisibilitychange s')"
proof -
  have h1: "localVideoTrack exJoined = Some cam0"
    by (rule exJoined_facts)
  have h2': "set (map cid (containers exJoined)) \<subseteq>
          sid ` exObj ` insert (localParticipant exRoom) (set (participants exRoom))"
    unfolding exJoined_facts(4) by (simp add: exObj_def exRoom_def)
  then have h2: "\<forall>c\<in>set (containers exJoined).
         cid c \<in> sid ` exObj ` insert (localParticipant exRoom) (set (participants exRoom))"
    by auto
  from teardown_converges [OF h1, of exObj True exRoom "TwilioError ''signaling''"] h2
  have "\<exists>s'. teardown exObj True exRoom UserLeave exJoined = Ok s'
        \<and> teardown exObj True exRoom (SdkError (TwilioError ''signaling'')) exJoined =
            Ok (s'\<lparr>joinPromise := Rejected (TwilioError ''signaling'')\<rparr>)
        \<and> joinPromise s' = Resolved
        \<and> cam0 \<in> set (stoppedTracks s')
        \<and> containers s' = []
        \<and> srcObject (activeVideo s') = {}
        \<and> \<not> onbeforeunload s' \<and> \<not> onpagehide s' \<and> \<not> onvisibilitychange s'"
    by blast
  with h1 h2' show ?thesis by blast
qed

text \<open>
  Claim C8, amended. For an audio or video track \<open>attachTrack\<close> returns, and:
  when a container of the participant is in the page, the track is attached to
  the media element of the track's kind in the participant's first container
  and that element's opacity is cleared; when none is, the containers of the
  page are unchanged. The track is attached to the main surface as well if and
  only if it is a video track and the participant is the active one; otherwise
  the main surface is unchanged. For a data track \<open>attachTrack\<close> throws a
  TypeError (line 217) and renders nothing.
\<close>

theorem attach_renders_thumbnail_and_main:
  "(kind t \<noteq> Data \<longrightarrow>
      (\<exists>s'. attachTrack obj t p s = Ok s'
         \<and> (case getFirst (sid (obj p)) (containers s) of
              None \<Rightarrow> containers s' = containers s
            | Some c0 \<Rightarrow>
                (\<exists>c el. getFirst (sid (obj p)) (containers s') = Some c
                    \<and> mediaOf (kind t) c = Some el
                    \<and> t \<in> srcObject el \<and> opacity el = ''''))
         \<and> (if kind t = Video \<and> activeParticipant s = Some p
            then t \<in> srcObject (activeVideo s') \<and> opacity (activeVideo s') = ''''
            else activeVideo s' = activeVideo s)))
   \<and> (kind t = Data \<longrightarrow> attachTrack obj t p s = Throw TypeError s)"
proof (intro conjI impI)
  assume k: "kind t \<noteq> Data"
  let ?i = "sid (obj p)"
  define s' where "s' = s\<lparr>containers := onFirst ?i (updMedia (kind t) (attach t))
                       (onAll ?i (updMedia (kind t) (css_opacity '''')) (containers s)),
           activeVideo := (if kind t = Video \<and> activeParticipant s = Some p
                           then css_opacity '''' (attach t (activeVideo s)) else activeVideo s)\<rparr>"
  have run: "attachTrack obj t p s = Ok s'"
    unfolding s'_def using k by (rule attachTrack_media)
  have main: "if kind t = Video \<and> activeParticipant s = Some p
            then t \<in> srcObject (activeVideo s') \<and> opacity (activeVideo s') = ''''
            else activeVideo s' = activeVideo s"
    by (simp add: s'_def attach_def css_opacity_def)
  have thumb: "case getFirst ?i (containers s) of
              None \<Rightarrow> containers s' = containers s
            | Some c0 \<Rightarrow>
                (\<exists>c el. getFirst ?i (containers s') = Some c
                    \<and> mediaOf (kind t) c = Some el
                    \<and> t \<in> srcObject el \<and> opacity el = '''')"
  proof (cases "getFirst ?i (containers s)")
    case None
    then have "?i \<notin> set (map cid (containers s))"
      by (simp add: getFirst_None_iff del: set_map)
    then have "containers s' = containers s"
      by (simp add: s'_def onAll_absent onFirst_absent del: set_map)
    with None show ?thesis by simp
  next
    case (Some c0)
    from k obtain el0 where el0: "mediaOf (kind t) c0 = Some el0"
      by (cases "kind t") simp_all
    have g: "getFirst ?i (containers s') =
               Some (updMedia (kind t) (\<lambda>el. attach t (css_opacity '''' el)) c0)"
      using attachTrack_thumbnail [OF run] Some by simp
    have m: "mediaOf (kind t) (updMedia (kind t) (\<lambda>el. attach t (css_opacity '''' el)) c0)
            = Some (attach t (css_opacity '''' el0))"
      by (simp add: el0)
    have e: "t \<in> srcObject (attach t (css_opacity '''' el0))"
      "opacity (attach t (css_opacity '''' el0)) = ''''"
      by (simp_all add: attach_def css_opacity_def)
    from g m e
    have "\<exists>c el. getFirst ?i (containers s') = Some c
                    \<and> mediaOf (kind t) c = Some el
                    \<and> t \<in> srcObject el \<and> opacity el = ''''"
      by blast
    then show ?thesis
      by (simp only: Some option.case)
  qed
  from run thumb main
  show "\<exists>s'. attachTrack obj t p s = Ok s'
         \<and> (case getFirst (sid (obj p)) (containers s) of
              None \<Rightarrow> containers s' = containers s
            | Some c0 \<Rightarrow>
                (\<exists>c el. getFirst (sid (obj p)) (containers s') = Some c
                    \<and> mediaOf (kind t) c = Some el
                    \<and> t \<in> srcObject el \<and> opacity el = ''''))
         \<and> (if kind t = Video \<and> activeParticipant s = Some p
            then t \<in> srcObject (activeVideo s') \<and> opacity (activeVideo s') = ''''
            else activeVideo s' = activeVideo s)"
    by blast
next
  assume "kind t = Data"
  then show "attachTrack obj t p s = Throw TypeError s"
    by (rule attachTrack_data)
qed

text \<open>
  Alice is active and her camera track is attached: thumbnail and main surface.
  Bob has left and his camera track is attached: the containers are unchanged.
  A data track of Bob's is attached: a TypeError.
\<close>

theorem attach_renders_thumbnail_and_main_witness:
  "kind cam0 \<noteq> Data
   \<and> (\<exists>s'. attachTrack exObj cam0 0 exJoined = Ok s'
        \<and> (\<exists>c el. getFirst (sid (exObj 0)) (containers s') = Some c
               \<and> mediaOf (kind cam0) c = Some el
               \<and> cam0 \<in> srcObject el \<and> opacity el = '''')
        \<and> cam0 \<in> srcObject (activeVideo s') \<and> opacity (activeVideo s') = '''')
   \<and> kind cam1 \<noteq> Data
   \<and> (\<exists>s'. attachTrack exObj cam1 1 exBobGone = Ok s'
        \<and> containers s' = containers exBobGone
        \<and> activeVideo s' = activeVideo exBobGone)
   \<and> kind chat1 = Data
   \<and> attachTrack exObj chat1 1 exJoined = Throw TypeError exJoined"
proof -
  have k: "kind cam0 \<noteq> Data" "kind cam1 \<noteq> Data" "kind chat1 = Data"
    by (simp_all add: cam0_def cam1_def chat1_def)
  have "getFirst (sid (exObj 0)) (containers exJoined) \<noteq> None"
    unfolding getFirst_None_iff exJoined_facts(4) by (simp add: exObj_def)
  then obtain c0 where c0: "getFirst (sid (exObj 0)) (containers exJoined) = Some c0"
    by auto
  have v: "kind cam0 = Video \<and> activeParticipant exJoined = Some 0"
    by (simp add: cam0_def exJoined_facts)
  from attach_renders_thumbnail_and_main [of cam0 exObj 0 exJoined] k(1)
  have a: "\<exists>s'. attachTrack exObj cam0 0 exJoined = Ok s'
        \<and> (\<exists>c el. getFirst (sid (exObj 0)) (containers s') = Some c
               \<and> mediaOf (kind cam0) c = Some el
               \<and> cam0 \<in> srcObject el \<and> opacity el = '''')
        \<and> cam0 \<in> srcObject (activeVideo s') \<and> opacity (activeVideo s') = ''''"
    by (simp add: c0 v)
  have g: "getFirst (sid (exObj 1)) (containers exBobGone) = None"
    unfolding getFirst_None_iff exBobGone_cids by (simp add: exObj_def)
  have w: "\<not> (kind cam1 = Video \<and> activeParticipant exBobGone = Some 1)"
    by (simp add: exBobGone_def Let_def disconnected_active exJoined_facts)
  from attach_renders_thumbnail_and_main [of cam1 exObj 1 exBobGone] k(2)
  have b: "\<exists>s'. attachTrack exObj cam1 1 exBobGone = Ok s'
        \<and> containers s' = containers exBobGone
        \<and> activeVideo s' = activeVideo exBobGone"
    by (simp only: g w option.case if_False simp_thms)
  from attach_renders_thumbnail_and_main [of chat1 exObj 1 exJoined] k(3)
  have c: "attachTrack exObj chat1 1 exJoined = Throw TypeError exJoined"
    by blast
  from k a b c show ?thesis by blast
qed

text \<open>
  The claim as stated fails in three ways. Alice is active, and attaching her
  microphone track does not put it on the main surface. Bob's container is in
  the page, and attaching a data track of his throws and changes nothing. Bob
  has left, so that his container is gone, and attaching his camera track
  returns with no container of his in the page.
\<close>

theorem attach_rendering_counterexample:
  "activeParticipant exJoined = Some 0
   \<and> thrown (attachTrack exObj mic0 0 exJoined) = None
   \<and> mic0 \<notin> srcObject (activeVideo (stateOf (attachTrack exObj mic0 0 exJoined)))
   \<and> sid (exObj 1) \<in> set (map cid (containers exJoined))
   \<and> attachTrack exObj chat1 1 exJoined = Throw TypeError exJoined
   \<and> thrown (attachTrack exObj cam1 1 exBobGone) = None
   \<and> getFirst (sid (exObj 1)) (containers (stateOf (attachTrack exObj cam1 1 exBobGone))) = None"
proof -
  have k: "kind mic0 \<noteq> Data" "kind mic0 \<noteq> Video" "kind cam1 \<noteq> Data" "kind chat1 = Data"
    by (simp_all add: mic0_def cam1_def chat1_def)
  have a1: "thrown (attachTrack exObj mic0 0 exJoined) = None"
    by (simp add: attachTrack_media k)
  have "activeVideo (stateOf (attachTrack exObj mic0 0 exJoined)) = activeVideo exJoined"
    by (simp add: attachTrack_media k)
  then have a2: "mic0 \<notin> srcObject (activeVideo (stateOf (attachTrack exObj mic0 0 exJoined)))"
    by (simp add: exJoined_facts mic0_def cam0_def)
  have b1: "sid (exObj 1) \<in> set (map cid (containers exJoined))"
    unfolding exJoined_facts(4) by (simp add: exObj_def)
  have b2: "attachTrack exObj chat1 1 exJoined = Throw TypeError exJoined"
    by (simp add: attachTrack_data k)
  from attachTrack_media [OF k(3), of exObj 1 exBobGone]
  obtain s' where s': "attachTrack exObj cam1 1 exBobGone = Ok s'"
    by blast
  have c1: "thrown (attachTrack exObj cam1 1 exBobGone) = None"
    unfolding s' by simp
  have "map cid (containers s') = [''PA0'', ''PA2'']"
    using attachTrack_Ok(5) [OF s'] by (simp add: exBobGone_cids)
  then have "getFirst (sid (exObj 1)) (containers s') = None"
    unfolding getFirst_None_iff by (simp add: exObj_def)
  then have c2: "getFirst (sid (exObj 1))
                   (containers (stateOf (attachTrack exObj cam1 1 exBobGone))) = None"
    unfolding s' by simp
  from exJoined_facts(1) a1 a2 b1 b2 c1 c2 show ?thesis by blast
qed

text \<open>
  Claim C9. \<open>joinRoom\<close> needs a video publication of the local participant:
  when \<^verbatim>\<open>videoTracks\<close> is empty, line 327 throws a TypeError and the state
  is the one before the call (no container, no listener, no promise). When it
  is not empty, line 327 does not throw: whether \<open>joinRoom\<close> then returns or
  throws, the local participant's container has been set up; and \<open>joinRoom\<close>
  returns when neither the local nor a remote participant publishes a data
  track.
\<close>

theorem joinRoom_requires_local_video_publication:
  "(videoTracks (obj (localParticipant r)) = [] \<longrightarrow>
      joinRoom obj isMobile (Inr r) s = Throw TypeError s)
   \<and> (videoTracks (obj (localParticipant r)) \<noteq> [] \<longrightarrow>
      length (containers s) < length (containers (stateOf (joinRoom obj isMobile (Inr r) s))))
   \<and> (videoTracks (obj (localParticipant r)) \<noteq> []
        \<and> mediaOnly (tracks (obj (localParticipant r)))
        \<and> list_all (\<lambda>p. mediaOnly (tracks (obj p))) (participants r) \<longrightarrow>
      (\<exists>s'. joinRoom obj isMobile (Inr r) s = Ok s'))"
proof (intro conjI impI)
  assume "videoTracks (obj (localParticipant r)) = []"
  then show "joinRoom obj isMobile (Inr r) s = Throw TypeError s"
    by (simp add: joinRoom_def)
next
  assume "videoTracks (obj (localParticipant r)) \<noteq> []"
  then show "length (containers s) <
               length (containers (stateOf (joinRoom obj isMobile (Inr r) s)))"
    by (rule joinRoom_sets_up_container)
next
  assume "videoTracks (obj (localParticipant r)) \<noteq> []
        \<and> mediaOnly (tracks (obj (localParticipant r)))
        \<and> list_all (\<lambda>p. mediaOnly (tracks (obj p))) (participants r)"
  then have "joinRoom obj isMobile (Inr r) s = Ok (stateOf (joinRoom obj isMobile (Inr r) s))"
    by (intro joinRoom_ok) simp_all
  then show "\<exists>s'. joinRoom obj isMobile (Inr r) s = Ok s'" ..
qed

text \<open>
  Dave (audio only), Erin (a camera and a data track) and Alice (a microphone
  and a camera, with Bob and Carol in the room) as local participants.
\<close>

theorem joinRoom_requires_local_video_publication_witness:
  "videoTracks (exObj (localParticipant audioOnlyRoom)) = []
   \<and> joinRoom exObj True (Inr audioOnlyRoom) (pageLoaded '''') =
       Throw TypeError (pageLoaded '''')
   \<and> videoTracks (exObj (localParticipant dataRoom)) \<noteq> []
   \<and> thrown (joinRoom exObj True (Inr dataRoom) (pageLoaded '''')) = Some TypeError
   \<and> length (containers (pageLoaded '''')) <
       length (containers (stateOf (joinRoom exObj True (Inr dataRoom) (pageLoaded ''''))))
   \<and> videoTracks (exObj (localParticipant exRoom)) \<noteq> []
   \<and> mediaOnly (tracks (exObj (localParticipant exRoom)))
   \<and> list_all (\<lambda>p. mediaOnly (tracks (exObj p))) (participants exRoom)
   \<and> (\<exists>s'. joinRoom exObj True (Inr exRoom) (pageLoaded '''') = Ok s')"
proof -
  have h1: "videoTracks (exObj (localParticipant audioOnlyRoom)) = []"
    by (simp add: audioOnlyRoom_def exObj_def)
  have h2: "videoTracks (exObj (localParticipant exRoom)) \<noteq> []"
    by (simp add: exRoom_def exObj_def)
  have h3: "mediaOnly (tracks (exObj (localParticipant exRoom)))"
    by (simp add: exRoom_def exObj_def mediaOnly_def mic0_def cam0_def)
  have h4: "list_all (\<lambda>p. mediaOnly (tracks (exObj p))) (participants exRoom)"
    by (simp add: exRoom_def exObj_def mediaOnly_def mic1_def cam1_def)
  have h5: "videoTracks (exObj (localParticipant dataRoom)) \<noteq> []"
    by (simp add: dataRoom_def exObj_def)
  note t1 = joinRoom_requires_local_video_publication [of exObj audioOnlyRoom True "pageLoaded ''''"]
  note t2 = joinRoom_requires_local_video_publication [of exObj exRoom True "pageLoaded ''''"]
  note t3 = joinRoom_requires_local_video_publication [of exObj dataRoom True "pageLoaded ''''"]
  from t1 h1 have c1: "joinRoom exObj True (Inr audioOnlyRoom) (pageLoaded '''') =
       Throw TypeError (pageLoaded '''')"
    by blast
  from t2 h2 h3 h4 have c2: "\<exists>s'. joinRoom exObj True (Inr exRoom) (pageLoaded '''') = Ok s'"
    by blast
  from t3 h5 have c3: "length (containers (pageLoaded '''')) <
       length (containers (stateOf (joinRoom exObj True (Inr dataRoom) (pageLoaded ''''))))"
    by blast
  from dataRoom_join
  have c4: "thrown (joinRoom exObj True (Inr dataRoom) (pageLoaded '''')) = Some TypeError"
    by auto
  from h1 h2 h3 h4 h5 c1 c2 c3 c4 show ?thesis by blast
qed

text \<open>
  Claim C10. When the active participant is not pinned and disconnects, the
  active participant is not recomputed: after the disconnect, and after any
  further disconnects, \<open>activeParticipant\<close> still names the participant, whose
  container is gone; the next dominant-speaker-changed event makes the dominant
  speaker, or else the local participant, active.
\<close>

theorem unpinned_active_disconnect_not_recomputed:
  assumes "activeParticipant s = Some p"
      and "\<not> isActiveParticipantPinned s"
      and "\<forall>oe\<in>set es. isDisconnectEvent (snd oe)"
  shows "activeParticipant (snd (run es (step obj (ParticipantDisconnected p) (r, s)))) = Some p
       \<and> sid (obj p) \<notin> set (map cid (containers
             (snd (run es (step obj (ParticipantDisconnected p) (r, s))))))
       \<and> activeParticipant (snd (step obj1 (DominantSpeakerChanged d)
             (run es (step obj (ParticipantDisconnected p) (r, s))))) =
           Some (case d of Some x \<Rightarrow> x | None \<Rightarrow> localParticipant r)"
proof -
  define w1 where "w1 = step obj (ParticipantDisconnected p) (r, s)"
  have a1: "\<not> isActiveParticipantPinned (snd w1)"
    using assms(2) by (simp add: w1_def Let_def disconnected_pinned)
  have b1: "activeParticipant (snd w1) = Some p"
    using assms(1,2) by (simp add: w1_def Let_def disconnected_active)
  have c1: "sid (obj p) \<notin> set (map cid (containers (snd w1)))"
    by (simp add: w1_def Let_def disconnected_cids del: set_map)
  have l1: "localParticipant (fst w1) = localParticipant r"
    by (simp add: w1_def Let_def)
  note rest = run_disconnects_unpinned [OF a1 assms(3)]
  obtain r2 s2 where w2: "run es w1 = (r2, s2)" by (cases "run es w1")
  from rest b1 c1 l1 w2 have
    u2: "\<not> isActiveParticipantPinned s2" and act2: "activeParticipant s2 = Some p"
    and loc2: "localParticipant r2 = localParticipant r"
    and gone: "sid (obj p) \<notin> set (map cid (containers s2))"
    by auto
  show ?thesis
    unfolding w1_def [symmetric] w2
    using u2 act2 loc2 gone
    by (simp add: Let_def speaker_unpinned currentSpeaker_def split: option.splits)
qed

text \<open>
  Bob is the dominant speaker and active, and leaves, then Carol leaves: Bob
  stays active until the speaker changes to nobody, when Alice becomes active.
\<close>

theorem unpinned_active_disconnect_not_recomputed_witness:
  "activeParticipant (snd exBobSpeaks) = Some 1
   \<and> \<not> isActiveParticipantPinned (snd exBobSpeaks)
   \<and> list_all (\<lambda>oe. isDisconnectEvent (snd oe)) [(exObj, ParticipantDisconnected 2)]
   \<and> activeParticipant
       (snd (run [(exObj, ParticipantDisconnected 2)]
               (step exObj (ParticipantDisconnected 1) (fst exBobSpeaks, snd exBobSpeaks)))) = Some 1
   \<and> sid (exObj 1) \<notin> set (map cid (containers
       (snd (run [(exObj, ParticipantDisconnected 2)]
               (step exObj (ParticipantDisconnected 1) (fst exBobSpeaks, snd exBobSpeaks))))))
   \<and> activeParticipant
       (snd (step exObj (DominantSpeakerChanged None)
         (run [(exObj, ParticipantDisconnected 2)]
            (step exObj (ParticipantDisconnected 1) (fst exBobSpeaks, snd exBobSpeaks))))) = Some 0"
proof -
  have h1: "activeParticipant (snd exBobSpeaks) = Some 1"
    by (rule exBobSpeaks_facts)
  have h2: "\<not> isActiveParticipantPinned (snd exBobSpeaks)"
    by (rule exBobSpeaks_facts)
  have h3: "\<forall>oe\<in>set [(exObj, ParticipantDisconnected 2)]. isDisconnectEvent (snd oe)"
    by simp
  note t = unpinned_active_disconnect_not_recomputed
    [OF h1 h2 h3, where obj = exObj and r = "fst exBobSpeaks" and d = None]
  have l: "localParticipant (fst exBobSpeaks) = 0"
    by (simp add: exBobSpeaks_facts exRoom_def)
  from t l have c3: "activeParticipant
       (snd (step exObj (DominantSpeakerChanged None)
         (run [(exObj, ParticipantDisconnected 2)]
            (step exObj (ParticipantDisconnected 1) (fst exBobSpeaks, snd exBobSpeaks))))) = Some 0"
    by simp
  have h3': "list_all (\<lambda>oe. isDisconnectEvent (snd oe)) [(exObj, ParticipantDisconnected 2)]"
    by simp
  from h1 h2 h3' t c3 show ?thesis by blast
qed

end
